theory Spec2Isabelle
  imports Main
begin

section \<open>The extraction pipeline of \<^verbatim>\<open>video_info.go\<close>\<close>

text \<open>
  A shallow embedding of \<^verbatim>\<open>getVideoInfoFromHTML\<close> and the functions it calls.
  Byte slices and Go strings are \<^typ>\<open>string\<close> (lists of bytes). A Go function
  returning \<^verbatim>\<open>(*VideoInfo, error)\<close> returns a pair of options here, so that what
  the code puts in each component is visible; a run that ends in a run-time panic is
  \<open>Panics\<close>. The requests sent through the client are collected in a list, in order.

  The standard library and third-party packages (\<^verbatim>\<open>encoding/json\<close>,
  \<^verbatim>\<open>net/url\<close>, \<^verbatim>\<open>time\<close>, \<^verbatim>\<open>jsonquery\<close>), the HTTP transport and the
  methods of this repository that are declared in other files are fields of the record
  \<open>Env\<close>: every theorem holds for each behaviour they may have. The three pieces of
  library code whose behaviour decides a property are written out: \<^verbatim>\<open>bufio.Reader.ReadString\<close>,
  \<^verbatim>\<open>strconv.Atoi\<close> and the matching of the two regular expressions.
\<close>

subsection \<open>Data\<close>

datatype 'a outcome = Returns 'a | Panics

text \<open>\<^verbatim>\<open>time.Time\<close>, as year, month and day; the zero value is January 1, year 1.\<close>

type_synonym Time = "nat \<times> nat \<times> nat"

definition zeroTime :: Time where
  "zeroTime = (1, 1, 1)"

text \<open>
  \<^verbatim>\<open>url.Values\<close> is \<^verbatim>\<open>map[string][]string\<close>. A key that is present holds at least
  one value (\<^verbatim>\<open>url.ParseQuery\<close> only stores slices it has appended to), so a slice is
  its first element and the rest, and \<^verbatim>\<open>v[0]\<close> is the first component.
\<close>

type_synonym Values = "string \<rightharpoonup> string \<times> string list"

text \<open>The struct \<^verbatim>\<open>VideoInfo\<close> (lines 27 to 43). A \<^verbatim>\<open>time.Duration\<close> is a
  signed 64-bit count of nanoseconds.\<close>

record 'f VideoInfo =
  ID :: string
  Title :: string
  Description :: string
  DatePublished :: Time
  Formats :: "'f list"
  DASHManifestURL :: string
  HLSManifestURL :: string
  Keywords :: "string list"
  Uploader :: string
  Song :: string
  Artist :: string
  Album :: string
  Writers :: string
  Duration :: int
  htmlPlayerFile :: string

text \<open>The zero value \<^verbatim>\<open>&VideoInfo{}\<close> of line 139.\<close>

definition zeroVideoInfo :: "'f VideoInfo" where
  "zeroVideoInfo =
     \<lparr>ID = [], Title = [], Description = [], DatePublished = zeroTime, Formats = [],
      DASHManifestURL = [], HLSManifestURL = [], Keywords = [], Uploader = [], Song = [],
      Artist = [], Album = [], Writers = [], Duration = 0, htmlPlayerFile = []\<rparr>"

text \<open>
  The struct \<^verbatim>\<open>playerConfig\<close> is declared in another file of the repository; these are
  the fields that \<^verbatim>\<open>getVideoInfoFromHTML\<close> reads and writes (\<^verbatim>\<open>jsonConfig.Args.*\<close>
  and \<^verbatim>\<open>jsonConfig.Assets.JS\<close>).
\<close>

record playerConfigArgs =
  Errorcode :: string
  Reason :: string
  Status :: string
  PlayerResponse :: string
  URLEncodedFmtStreamMap :: string
  AdaptiveFmts :: string
  Dashmpd :: string

record playerConfig =
  Assets_JS :: string
  Args :: playerConfigArgs

definition zeroPlayerConfig :: playerConfig where
  "zeroPlayerConfig =
     \<lparr>Assets_JS = [],
      Args = \<lparr>Errorcode = [], Reason = [], Status = [], PlayerResponse = [],
              URLEncodedFmtStreamMap = [], AdaptiveFmts = [], Dashmpd = []\<rparr>\<rparr>"

text \<open>
  The struct \<^verbatim>\<open>playerResponse\<close>, also declared elsewhere: the fields read at lines 220
  to 242, the nested structs flattened (\<^verbatim>\<open>response.StreamingData.Formats\<close> is
  \<open>StreamingData_Formats\<close>). \<open>'fi\<close> is the type \<^verbatim>\<open>formatInfo\<close>.
\<close>

record 'fi playerResponse =
  StreamingData_DashManifestUrl :: string
  StreamingData_HlsManifestUrl :: string
  StreamingData_Formats :: "'fi list"
  StreamingData_AdaptiveFormats :: "'fi list"
  PlayabilityStatus_Status :: string
  PlayabilityStatus_Reason :: string
  VideoDetails_LengthSeconds :: string
  VideoDetails_Title :: string
  VideoDetails_Author :: string
  Microformat_Renderer_PublishDate :: string

text \<open>
  The errors that \<^verbatim>\<open>getVideoInfoFromHTML\<close> and \<^verbatim>\<open>GetVideoInfoFromID\<close> return, one
  constructor for each \<^verbatim>\<open>return nil, ...\<close>; a string argument that comes from a
  collaborator is that collaborator's error.
\<close>

datatype error =
    TransportError string
  | ConfigDecodeError string
  | ReadVideoInfoError string
  | ParseVideoInfoError string
  | StatusFailError string string
  | PlayerResponseDecodeError string
  | UnavailableError string

text \<open>The text of each error, as \<^verbatim>\<open>fmt.Errorf\<close> builds it.\<close>

fun errorString :: "error \<Rightarrow> string" where
  "errorString (TransportError e) = e"
| "errorString (ConfigDecodeError e) = e"
| "errorString (ReadVideoInfoError e) = ''Unable to read video info: '' @ e"
| "errorString (ParseVideoInfoError e) = ''Unable to parse video info data: '' @ e"
| "errorString (StatusFailError code reason) = ''Error '' @ code @ '':'' @ reason"
| "errorString (PlayerResponseDecodeError e) = ''Couldn't parse player response: '' @ e"
| "errorString (UnavailableError reason) = ''Unavailable because: '' @ reason"

subsection \<open>Collaborators\<close>

text \<open>
  \<open>'n\<close> is \<^verbatim>\<open>*jsonquery.Node\<close>, \<open>'f\<close> is \<^verbatim>\<open>Format\<close>, \<open>'fi\<close> is \<^verbatim>\<open>formatInfo\<close>.
  A collaborator that returns an error returns \<open>Inl\<close> of its text.
  \<^item> \<open>httpGetAndCheckResponseReadBody\<close>: the client's request, from a URL to the body;
  \<^item> \<open>json_Unmarshal_playerConfig\<close>: \<^verbatim>\<open>json.Unmarshal\<close> into the zero \<^verbatim>\<open>playerConfig\<close>;
  \<^item> \<open>json_Unmarshal_playerResponse\<close>: \<^verbatim>\<open>json.Unmarshal(..., &response)\<close> with
    \<^verbatim>\<open>response\<close> a pointer to a fresh \<^verbatim>\<open>playerResponse\<close>: the value \<^verbatim>\<open>response\<close> points
    to afterwards, \<open>None\<close> when \<^verbatim>\<open>response\<close> is \<^verbatim>\<open>nil\<close> afterwards (the target is a
    pointer, and the JSON literal \<^verbatim>\<open>null\<close> sets a pointer to \<^verbatim>\<open>nil\<close>);
  \<^item> \<open>url_Values_Encode\<close> and \<open>url_ParseQuery\<close>: \<^verbatim>\<open>Values.Encode\<close> and \<^verbatim>\<open>url.ParseQuery\<close>;
  \<^item> \<open>time_Parse\<close>: \<^verbatim>\<open>time.Parse\<close>, from the layout and the value;
  \<^item> \<open>jsonquery_Parse\<close>, \<open>jsonquery_Query\<close>, \<open>jsonquery_Find\<close>, \<open>InnerText\<close>: the
    package \<^verbatim>\<open>jsonquery\<close>, a query taking the node and the expression;
  \<^item> \<open>getMetaDataRow\<close>, \<open>addByQueryString\<close>, \<open>addByInfo\<close>: functions of this repository
    declared in other files. The two methods of \<^verbatim>\<open>*FormatList\<close> return the list as they
    leave it, and their error.
\<close>

record ('n, 'f, 'fi) Env =
  httpGetAndCheckResponseReadBody :: "string \<Rightarrow> string + string"
  json_Unmarshal_playerConfig :: "string \<Rightarrow> string + playerConfig"
  json_Unmarshal_playerResponse :: "string \<Rightarrow> string + 'fi playerResponse option"
  url_Values_Encode :: "Values \<Rightarrow> string"
  url_ParseQuery :: "string \<Rightarrow> string + Values"
  time_Parse :: "string \<Rightarrow> string \<Rightarrow> string + Time"
  jsonquery_Parse :: "string \<Rightarrow> string + 'n"
  jsonquery_Query :: "'n \<Rightarrow> string \<Rightarrow> string + 'n option"
  jsonquery_Find :: "'n \<Rightarrow> string \<Rightarrow> 'n list"
  InnerText :: "'n \<Rightarrow> string"
  getMetaDataRow :: "'n \<Rightarrow> string \<times> string"
  addByQueryString :: "'f list \<Rightarrow> string \<Rightarrow> bool \<Rightarrow> 'f list \<times> string option"
  addByInfo :: "'f list \<Rightarrow> 'fi \<Rightarrow> bool \<Rightarrow> 'f list \<times> string option"

subsection \<open>Constants (lines 20 to 24)\<close>

definition youtubeBaseURL :: string where
  "youtubeBaseURL = ''https://www.youtube.com/watch''"

definition youtubeVideoEURL :: string where
  "youtubeVideoEURL = ''https://youtube.googleapis.com/v/''"

definition youtubeVideoInfoURL :: string where
  "youtubeVideoInfoURL = ''https://www.youtube.com/get_video_info''"

definition youtubeDateFormat :: string where
  "youtubeDateFormat = ''2006-01-02''"

subsection \<open>Reading the stream maps (lines 297 to 316)\<close>

text \<open>
  \<^verbatim>\<open>bufio.Reader.ReadString(delim)\<close> on a reader over the string \<open>rd\<close>: the bytes up to
  and including the first \<open>delim\<close>, what is left in the reader, and whether the error is
  \<^verbatim>\<open>io.EOF\<close>. When no \<open>delim\<close> is left, it returns all the remaining bytes together
  with \<^verbatim>\<open>io.EOF\<close>. A reader over a string has no other error.
\<close>

fun ReadString :: "char \<Rightarrow> string \<Rightarrow> string \<times> string \<times> bool" where
  "ReadString delim [] = ([], [], True)"
| "ReadString delim (c # cs) =
     (if c = delim then ([c], cs, False)
      else (case ReadString delim cs of (line, rest, eof) \<Rightarrow> (c # line, rest, eof)))"

text \<open>
  \<^verbatim>\<open>addFormatsByQueryStrings\<close>: the loop leaves at \<^verbatim>\<open>io.EOF\<close> before it looks at
  \<^verbatim>\<open>line\<close>; otherwise \<^verbatim>\<open>line[:len(line)-1]\<close> goes to \<^verbatim>\<open>addByQueryString\<close>, whose
  error is only logged.
\<close>

function addFormatsByQueryStrings ::
  "('n, 'f, 'fi) Env \<Rightarrow> 'f list \<Rightarrow> string \<Rightarrow> bool \<Rightarrow> 'f list" where
  "addFormatsByQueryStrings c formats rd adaptive =
     (case ReadString CHR '','' rd of
        (line, rest, eof) \<Rightarrow>
          if eof then formats
          else addFormatsByQueryStrings c
                 (fst (addByQueryString c formats (butlast line) adaptive)) rest adaptive)"
  by pat_completeness auto
termination
proof (relation "measure (\<lambda>(c, formats, rd, adaptive). length rd)")
  have shorter: "length rest < length rd"
    if "ReadString delim rd = (line, rest, False)" for delim rd line rest
    using that by (induction rd arbitrary: line) (auto split: if_splits prod.splits)
  show "((c, fst (addByQueryString c formats (butlast line) adaptive), rest, adaptive),
         (c, formats, rd, adaptive)) \<in> measure (\<lambda>(c, formats, rd, adaptive). length rd)"
    if "(line, p) = ReadString CHR '','' rd" and "(rest, eof) = p" and "\<not> eof"
    for c :: "('n, 'f, 'fi) Env" and formats rd adaptive line p rest eof
    using that shorter [of "CHR '',''" rd line rest] by simp
qed simp

text \<open>\<^verbatim>\<open>addFormatsByInfos\<close>: every element goes to \<^verbatim>\<open>addByInfo\<close>.\<close>

fun addFormatsByInfos ::
  "('n, 'f, 'fi) Env \<Rightarrow> 'f list \<Rightarrow> 'fi list \<Rightarrow> bool \<Rightarrow> 'f list" where
  "addFormatsByInfos c formats [] adaptive = formats"
| "addFormatsByInfos c formats (info # infos) adaptive =
     addFormatsByInfos c (fst (addByInfo c formats info adaptive)) infos adaptive"

subsection \<open>The regular expressions (lines 131 to 136)\<close>

text \<open>
  \<^verbatim>\<open>FindSubmatch\<close> returns \<^verbatim>\<open>nil\<close> when nothing matches, and otherwise the whole
  match and the text of the one group of the expression; the functions below return
  that group, \<^verbatim>\<open>matches[1]\<close>. The package \<^verbatim>\<open>regexp\<close> finds the leftmost match, and of
  the matches that start there the one a backtracking search meets first; \<^verbatim>\<open>.\<close> is any
  character but the line feed.
\<close>

definition HasPrefix :: "string \<Rightarrow> string \<Rightarrow> bool" where
  "HasPrefix s pre = (take (length pre) s = pre)"

text \<open>\<^verbatim>\<open>(.*?)\<close> followed by the literal \<open>lit\<close>, from the start of \<open>s\<close>: the shortest group.\<close>

fun lazyUntil :: "string \<Rightarrow> string \<Rightarrow> string option" where
  "lazyUntil lit [] = (if lit = [] then Some [] else None)"
| "lazyUntil lit (c # cs) =
     (if HasPrefix (c # cs) lit then Some []
      else if c = CHR 0x0A then None
      else map_option ((#) c) (lazyUntil lit cs))"

text \<open>\<^verbatim>\<open>(.*);\<close> and \<^verbatim>\<open>(.+);\<close> from the start of \<open>s\<close>: the longest group.\<close>

fun greedyStarSemicolon :: "string \<Rightarrow> string option" where
  "greedyStarSemicolon [] = None"
| "greedyStarSemicolon (c # cs) =
     (if c = CHR 0x0A then None
      else (case greedyStarSemicolon cs of
              Some g \<Rightarrow> Some (c # g)
            | None \<Rightarrow> if c = CHR '';'' then Some [] else None))"

fun greedyPlusSemicolon :: "string \<Rightarrow> string option" where
  "greedyPlusSemicolon [] = None"
| "greedyPlusSemicolon (c # cs) =
     (if c = CHR 0x0A then None else map_option ((#) c) (greedyStarSemicolon cs))"

text \<open>\<^verbatim>\<open>regexpPlayerConfig\<close> is \<^verbatim>\<open>ytplayer\.config = (.*?);ytplayer\.\<close>\<close>

fun regexpPlayerConfig_FindSubmatch :: "string \<Rightarrow> string option" where
  "regexpPlayerConfig_FindSubmatch [] = None"
| "regexpPlayerConfig_FindSubmatch (c # cs) =
     (if HasPrefix (c # cs) ''ytplayer.config = '' then
        (case lazyUntil '';ytplayer.'' (drop 18 (c # cs)) of
           Some g \<Rightarrow> Some g
         | None \<Rightarrow> regexpPlayerConfig_FindSubmatch cs)
      else regexpPlayerConfig_FindSubmatch cs)"

text \<open>\<^verbatim>\<open>regexpInitialData\<close> is \<^verbatim>\<open>\["ytInitialData"\] = (.+);\<close>\<close>

fun regexpInitialData_FindSubmatch :: "string \<Rightarrow> string option" where
  \<open>regexpInitialData_FindSubmatch [] = None\<close>
| \<open>regexpInitialData_FindSubmatch (c # cs) =
     (if HasPrefix (c # cs) ''["ytInitialData"] = '' then
        (case greedyPlusSemicolon (drop 20 (c # cs)) of
           Some g \<Rightarrow> Some g
         | None \<Rightarrow> regexpInitialData_FindSubmatch cs)
      else regexpInitialData_FindSubmatch cs)\<close>

subsection \<open>The duration (lines 228 to 233)\<close>

text \<open>
  \<^verbatim>\<open>strconv.Atoi\<close>, with \<^verbatim>\<open>int\<close> of 64 bits: an optional sign, then one or more decimal
  digits and nothing else; a value outside the range of \<^verbatim>\<open>int\<close> is an error as a
  malformed string is. \<open>None\<close> is \<^verbatim>\<open>err != nil\<close>.
\<close>

definition isDigit :: "char \<Rightarrow> bool" where
  "isDigit ch = (48 \<le> (of_char ch :: nat) \<and> (of_char ch :: nat) \<le> 57)"

definition digitsValue :: "string \<Rightarrow> int" where
  "digitsValue ds = foldl (\<lambda>n ch. n * 10 + (int (of_char ch) - 48)) 0 ds"

definition Atoi :: "string \<Rightarrow> int option" where
  "Atoi s =
     (let (neg, ds) =
            (case s of
               [] \<Rightarrow> (False, [])
             | ch # r \<Rightarrow>
                 if ch = CHR ''-'' then (True, r)
                 else if ch = CHR ''+'' then (False, r)
                 else (False, s))
      in if ds = [] \<or> \<not> list_all isDigit ds then None
         else let n = (if neg then - digitsValue ds else digitsValue ds)
              in if - (2 ^ 63) \<le> n \<and> n \<le> 2 ^ 63 - 1 then Some n else None)"

text \<open>Arithmetic on \<^verbatim>\<open>int64\<close> keeps the low 64 bits, read as two's complement.\<close>

definition int64 :: "int \<Rightarrow> int" where
  "int64 x = (x + 2 ^ 63) mod 2 ^ 64 - 2 ^ 63"

text \<open>\<^verbatim>\<open>time.Second\<close>, in nanoseconds.\<close>

definition Second :: int where
  "Second = 1000000000"

definition setDuration :: "string \<Rightarrow> 'f VideoInfo \<Rightarrow> 'f VideoInfo" where
  "setDuration seconds info =
     (if seconds \<noteq> [] then
        (case Atoi seconds of
           Some val \<Rightarrow> info\<lparr>Duration := int64 (int64 val * Second)\<rparr>
         | None \<Rightarrow> info)
      else info)"

subsection \<open>The page metadata (lines 259 to 295)\<close>

text \<open>The \<^verbatim>\<open>switch key\<close> of one metadata row.\<close>

definition applyMetaDataRow :: "'f VideoInfo \<Rightarrow> string \<times> string \<Rightarrow> 'f VideoInfo" where
  "applyMetaDataRow info kv =
     (case kv of
        (key, val) \<Rightarrow>
          if key = ''Artist'' then info\<lparr>Artist := val\<rparr>
          else if key = ''Song'' then info\<lparr>Song := val\<rparr>
          else if key = ''Album'' then info\<lparr>Album := val\<rparr>
          else if key = ''Writers'' then info\<lparr>Writers := val\<rparr>
          else info)"

text \<open>\<^verbatim>\<open>addMetadata\<close> changes \<^verbatim>\<open>info\<close> in place and returns an error: the model returns
  the record as the method leaves it, and the error.\<close>

definition addMetadata ::
  "('n, 'f, 'fi) Env \<Rightarrow> 'f VideoInfo \<Rightarrow> string \<Rightarrow> 'f VideoInfo \<times> string option" where
  "addMetadata c info jsondata =
     (case jsonquery_Parse c jsondata of
        Inl err \<Rightarrow> (info, Some err)
      | Inr doc \<Rightarrow>
          (case jsonquery_Query c doc ''//videoSecondaryInfoRenderer/description'' of
             Inl err \<Rightarrow> (info, Some err)
           | Inr descr \<Rightarrow>
               let info1 =
                     (case descr of
                        None \<Rightarrow> info
                      | Some d \<Rightarrow>
                          info\<lparr>Description :=
                            concat (map (InnerText c) (jsonquery_Find c d ''//text''))\<rparr>);
                   rows = jsonquery_Find c doc
                            ''//metadataRowContainer/*/rows/*/metadataRowRenderer''
               in (foldl applyMetaDataRow info1 (map (getMetaDataRow c) rows), None)))"

text \<open>Lines 139 to 147: the metadata when the page has the marker, the error only
  logged, and then the identifier.\<close>

definition metadataStep :: "('n, 'f, 'fi) Env \<Rightarrow> string \<Rightarrow> string \<Rightarrow> 'f VideoInfo" where
  "metadataStep c vid html =
     (let info = zeroVideoInfo;
          info = (case regexpInitialData_FindSubmatch html of
                    Some m \<Rightarrow> fst (addMetadata c info m)
                  | None \<Rightarrow> info)
      in info\<lparr>ID := vid\<rparr>)"

subsection \<open>The player configuration (lines 149 to 202)\<close>

text \<open>One \<^verbatim>\<open>case\<close> of the \<^verbatim>\<open>switch k\<close> at line 183: when the key \<open>k\<close> is in the map, the
  field takes \<^verbatim>\<open>v[0]\<close>. The keys of a map are distinct and each case writes its own
  field, so the order in which \<^verbatim>\<open>range\<close> visits them does not matter.\<close>

definition setArg ::
  "Values \<Rightarrow> string \<Rightarrow> (string \<Rightarrow> playerConfigArgs \<Rightarrow> playerConfigArgs) \<Rightarrow>
     playerConfigArgs \<Rightarrow> playerConfigArgs" where
  "setArg query k upd args = (case query k of None \<Rightarrow> args | Some (v0, vs) \<Rightarrow> upd v0 args)"

definition argsFromQuery :: "Values \<Rightarrow> playerConfigArgs \<Rightarrow> playerConfigArgs" where
  "argsFromQuery query args =
     (setArg query ''dashmpd'' (\<lambda>v a. a\<lparr>Dashmpd := v\<rparr>)
       (setArg query ''adaptive_fmts'' (\<lambda>v a. a\<lparr>AdaptiveFmts := v\<rparr>)
         (setArg query ''url_encoded_fmt_stream_map'' (\<lambda>v a. a\<lparr>URLEncodedFmtStreamMap := v\<rparr>)
           (setArg query ''player_response'' (\<lambda>v a. a\<lparr>PlayerResponse := v\<rparr>)
             (setArg query ''status'' (\<lambda>v a. a\<lparr>Status := v\<rparr>)
               (setArg query ''reason'' (\<lambda>v a. a\<lparr>Reason := v\<rparr>)
                 (setArg query ''errorcode'' (\<lambda>v a. a\<lparr>Errorcode := v\<rparr>) args)))))))"

text \<open>The request of line 172.\<close>

definition videoInfoRequest :: "('n, 'f, 'fi) Env \<Rightarrow> string \<Rightarrow> string" where
  "videoInfoRequest c vid =
     youtubeVideoInfoURL @ ''?'' @
       url_Values_Encode c
         [''video_id'' \<mapsto> (vid, []), ''eurl'' \<mapsto> (youtubeVideoEURL @ vid, [])]"

text \<open>\<^verbatim>\<open>jsonConfig\<close> after line 202, or the error returned before, and the requests sent.\<close>

definition resolveConfig ::
  "('n, 'f, 'fi) Env \<Rightarrow> string \<Rightarrow> string \<Rightarrow> (error + playerConfig) \<times> string list" where
  "resolveConfig c vid html =
     (case regexpPlayerConfig_FindSubmatch html of
        Some m \<Rightarrow>
          (case json_Unmarshal_playerConfig c m of
             Inl err \<Rightarrow> (Inl (ConfigDecodeError err), [])
           | Inr jsonConfig \<Rightarrow> (Inr jsonConfig, []))
      | None \<Rightarrow>
          (case httpGetAndCheckResponseReadBody c (videoInfoRequest c vid) of
             Inl err \<Rightarrow> (Inl (ReadVideoInfoError err), [videoInfoRequest c vid])
           | Inr body \<Rightarrow>
               (case url_ParseQuery c body of
                  Inl err \<Rightarrow> (Inl (ParseVideoInfoError err), [videoInfoRequest c vid])
                | Inr query \<Rightarrow>
                    (Inr (zeroPlayerConfig\<lparr>Args := argsFromQuery query (Args zeroPlayerConfig)\<rparr>),
                     [videoInfoRequest c vid]))))"

subsection \<open>The player response (lines 214 to 245)\<close>

text \<open>
  \<open>Inl\<close> is the error of a \<^verbatim>\<open>return nil, ...\<close>; \<open>Inr\<close> is \<^verbatim>\<open>info\<close> and \<^verbatim>\<open>formats\<close> at
  line 246. When \<^verbatim>\<open>response\<close> is \<^verbatim>\<open>nil\<close> after decoding, line 220 reads a field through
  a nil pointer.
\<close>

definition playerResponseStep ::
  "('n, 'f, 'fi) Env \<Rightarrow> playerConfigArgs \<Rightarrow> 'f VideoInfo \<Rightarrow> 'f list \<Rightarrow>
     (error + 'f VideoInfo \<times> 'f list) outcome" where
  "playerResponseStep c args info formats =
     (if PlayerResponse args \<noteq> [] then
        (case json_Unmarshal_playerResponse c (PlayerResponse args) of
           Inl err \<Rightarrow> Returns (Inl (PlayerResponseDecodeError err))
         | Inr None \<Rightarrow> Panics
         | Inr (Some response) \<Rightarrow>
             let info = info\<lparr>DASHManifestURL := StreamingData_DashManifestUrl response,
                             HLSManifestURL := StreamingData_HlsManifestUrl response\<rparr>
             in if PlayabilityStatus_Status response \<noteq> ''OK'' then
                  Returns (Inl (UnavailableError (PlayabilityStatus_Reason response)))
                else
                  let formats = addFormatsByInfos c formats (StreamingData_Formats response) False;
                      formats = addFormatsByInfos c formats
                                  (StreamingData_AdaptiveFormats response) True;
                      info = setDuration (VideoDetails_LengthSeconds response) info;
                      info = (case time_Parse c youtubeDateFormat
                                     (Microformat_Renderer_PublishDate response) of
                                Inr date \<Rightarrow> info\<lparr>DatePublished := date\<rparr>
                              | Inl err \<Rightarrow> info);
                      info = info\<lparr>Title := VideoDetails_Title response,
                                  Uploader := VideoDetails_Author response\<rparr>
                  in Returns (Inr (info, formats)))
      else Returns (Inr (info, formats)))"

subsection \<open>\<^verbatim>\<open>getVideoInfoFromHTML\<close> (lines 138 to 257) and \<^verbatim>\<open>GetVideoInfoFromID\<close>\<close>

text \<open>The two stream maps of the configuration, lines 209 to 213.\<close>

definition legacyFormats :: "('n, 'f, 'fi) Env \<Rightarrow> playerConfigArgs \<Rightarrow> 'f list" where
  "legacyFormats c args =
     (let formats = addFormatsByQueryStrings c [] (URLEncodedFmtStreamMap args) False
      in if AdaptiveFmts args \<noteq> [] then
           addFormatsByQueryStrings c formats (AdaptiveFmts args) True
         else formats)"

text \<open>Lines 204 to 256, from \<^verbatim>\<open>info\<close> and \<^verbatim>\<open>jsonConfig\<close> as they are at line 203: what
  the call returns, \<^verbatim>\<open>(*VideoInfo, error)\<close> with \<open>None\<close> for \<^verbatim>\<open>nil\<close>, or that it
  panics.\<close>

definition extractFromConfig ::
  "('n, 'f, 'fi) Env \<Rightarrow> 'f VideoInfo \<Rightarrow> playerConfig \<Rightarrow>
     ('f VideoInfo option \<times> error option) outcome" where
  "extractFromConfig c info jsonConfig =
     (let args = Args jsonConfig \<comment> \<open>\<^verbatim>\<open>inf\<close> in the source\<close>
      in if Status args = ''fail'' then
           Returns (None, Some (StatusFailError (Errorcode args) (Reason args)))
         else
           (case playerResponseStep c args info (legacyFormats c args) of
              Panics \<Rightarrow> Panics
            | Returns (Inl err) \<Rightarrow> Returns (None, Some err)
            | Returns (Inr (info, formats)) \<Rightarrow>
                let info = (if htmlPlayerFile info = [] then
                              info\<lparr>htmlPlayerFile := Assets_JS jsonConfig\<rparr>
                            else info);
                    info = info\<lparr>Formats := formats\<rparr>
                in Returns (Some info, None)))"

text \<open>The whole call: its result, and the requests it has sent.\<close>

definition getVideoInfoFromHTML ::
  "('n, 'f, 'fi) Env \<Rightarrow> string \<Rightarrow> string \<Rightarrow>
     ('f VideoInfo option \<times> error option) outcome \<times> string list" where
  "getVideoInfoFromHTML c vid html =
     (let info = metadataStep c vid html
      in case resolveConfig c vid html of
           (Inl err, reqs) \<Rightarrow> (Returns (None, Some err), reqs)
         | (Inr jsonConfig, reqs) \<Rightarrow> (extractFromConfig c info jsonConfig, reqs))"

text \<open>The request of line 93.\<close>

definition watchRequest :: "string \<Rightarrow> string" where
  "watchRequest vid = youtubeBaseURL @ ''?v='' @ vid @ ''&gl=US&hl=en&has_verified=1&bpctr=9999999999''"

definition GetVideoInfoFromID ::
  "('n, 'f, 'fi) Env \<Rightarrow> string \<Rightarrow>
     ('f VideoInfo option \<times> error option) outcome \<times> string list" where
  "GetVideoInfoFromID c vid =
     (case httpGetAndCheckResponseReadBody c (watchRequest vid) of
        Inl err \<Rightarrow> (Returns (None, Some (TransportError err)), [watchRequest vid])
      | Inr body \<Rightarrow>
          (case getVideoInfoFromHTML c vid body of
             (r, reqs) \<Rightarrow> (r, watchRequest vid # reqs)))"

subsection \<open>Sample collaborators\<close>

text \<open>\<^verbatim>\<open>url.QueryEscape\<close>: a letter, a digit and \<^verbatim>\<open>-\<close>, \<^verbatim>\<open>_\<close>, \<^verbatim>\<open>.\<close>, \<^verbatim>\<open>~\<close> stay, a space
  becomes \<^verbatim>\<open>+\<close>, and every other byte becomes \<^verbatim>\<open>%\<close> and its two hexadecimal digits.\<close>

definition hexDigit :: "nat \<Rightarrow> char" where
  "hexDigit n = ''0123456789ABCDEF'' ! (n mod 16)"

definition shouldEscape :: "char \<Rightarrow> bool" where
  "shouldEscape ch =
     (let n = (of_char ch :: nat)
      in \<not> (97 \<le> n \<and> n \<le> 122 \<or> 65 \<le> n \<and> n \<le> 90 \<or> 48 \<le> n \<and> n \<le> 57 \<or>
            ch = CHR ''-'' \<or> ch = CHR ''_'' \<or> ch = CHR ''.'' \<or> ch = CHR ''~''))"

fun QueryEscape :: "string \<Rightarrow> string" where
  "QueryEscape [] = []"
| "QueryEscape (ch # s) =
     (if ch = CHR '' '' then CHR ''+'' # QueryEscape s
      else if shouldEscape ch then
        CHR ''%'' # hexDigit (of_char ch div 16) # hexDigit (of_char ch mod 16) # QueryEscape s
      else ch # QueryEscape s)"

text \<open>\<^verbatim>\<open>Values.Encode\<close> on a map whose keys are \<^verbatim>\<open>eurl\<close> and \<^verbatim>\<open>video_id\<close>, each with one
  value: the keys in order, the values escaped.\<close>

definition encodeVideoInfoQuery :: "Values \<Rightarrow> string" where
  "encodeVideoInfoQuery query =
     (case (query ''eurl'', query ''video_id'') of
        (Some (eurl, []), Some (video_id, [])) \<Rightarrow>
          ''eurl='' @ QueryEscape eurl @ ''&video_id='' @ QueryEscape video_id
      | _ \<Rightarrow> [])"

text \<open>
  Collaborators for the examples: the request, the two JSON decoders and
  \<^verbatim>\<open>url.ParseQuery\<close> answer as given, whatever they are asked; the query of the
  fallback request is encoded as above; no date parses and no page metadata decodes;
  a format is the text it was decoded from with its adaptive flag, and every segment
  and every \<^verbatim>\<open>formatInfo\<close> (a text as well) is accepted.
\<close>

definition sampleEnv ::
  "string + string \<Rightarrow> string + playerConfig \<Rightarrow> string + Values \<Rightarrow>
     string + string playerResponse option \<Rightarrow> (unit, string \<times> bool, string) Env" where
  "sampleEnv response config query playerResp =
     \<lparr>httpGetAndCheckResponseReadBody = (\<lambda>u. response),
      json_Unmarshal_playerConfig = (\<lambda>s. config),
      json_Unmarshal_playerResponse = (\<lambda>s. playerResp),
      url_Values_Encode = encodeVideoInfoQuery,
      url_ParseQuery = (\<lambda>s. query),
      time_Parse = (\<lambda>layout v. Inl ''parsing time: cannot parse''),
      jsonquery_Parse = (\<lambda>s. Inl ''unexpected end of JSON input''),
      jsonquery_Query = (\<lambda>n e. Inr None),
      jsonquery_Find = (\<lambda>n e. []),
      InnerText = (\<lambda>n. []),
      getMetaDataRow = (\<lambda>n. ([], [])),
      addByQueryString = (\<lambda>formats s adaptive. (formats @ [(s, adaptive)], None)),
      addByInfo = (\<lambda>formats info adaptive. (formats @ [(info, adaptive)], None))\<rparr>"

definition sampleArgs :: playerConfigArgs where
  "sampleArgs = Args zeroPlayerConfig"

definition sampleResponse :: "string playerResponse" where
  "sampleResponse =
     \<lparr>StreamingData_DashManifestUrl = [], StreamingData_HlsManifestUrl = [],
      StreamingData_Formats = [], StreamingData_AdaptiveFormats = [],
      PlayabilityStatus_Status = ''OK'', PlayabilityStatus_Reason = [],
      VideoDetails_LengthSeconds = ''635'', VideoDetails_Title = ''A title'',
      VideoDetails_Author = ''An author'', Microformat_Renderer_PublishDate = []\<rparr>"

text \<open>The request of the fallback endpoint for the identifier \<^verbatim>\<open>abc\<close>.\<close>

definition sampleRequest :: string where
  "sampleRequest =
     ''https://www.youtube.com/get_video_info?eurl=https%3A%2F%2Fyoutube.googleapis.com%2Fv%2Fabc&video_id=abc''"

text \<open>A page with the marker of the embedded configuration, and one without.\<close>

definition samplePage :: string where
  "samplePage = ''<script>ytplayer.config = {};ytplayer.load();</script>''"

definition plainPage :: string where
  "plainPage = ''<html></html>''"

text \<open>A page with the marker of the metadata as well.\<close>

definition metadataPage :: string where
  \<open>metadataPage =
     ''window["ytInitialData"] = {};ytplayer.config = {};ytplayer.load();''\<close>

text \<open>The configuration of a video that is not found, and the same as the answer of
  the fallback endpoint, with a key the code does not know.\<close>

definition failedConfig :: playerConfig where
  "failedConfig =
     zeroPlayerConfig\<lparr>Args := sampleArgs\<lparr>Status := ''fail'', Errorcode := ''100'',
                                         Reason := ''Video not found''\<rparr>\<rparr>"

definition failedQuery :: Values where
  "failedQuery =
     [''status'' \<mapsto> (''fail'', []), ''errorcode'' \<mapsto> (''100'', []),
      ''reason'' \<mapsto> (''Video not found'', []), ''csn'' \<mapsto> (''x'', [])]"

text \<open>A configuration with a player response; one whose player response is the JSON
  literal \<^verbatim>\<open>null\<close>; one with a player script and two legacy stream maps, every entry
  followed by a comma; the answer of the fallback endpoint whose player response is
  \<^verbatim>\<open>null\<close>; and a configuration with nothing but a muxed stream map of one entry.\<close>

definition responseConfig :: playerConfig where
  "responseConfig = zeroPlayerConfig\<lparr>Args := sampleArgs\<lparr>PlayerResponse := ''{...}''\<rparr>\<rparr>"

definition nullResponseConfig :: playerConfig where
  "nullResponseConfig = zeroPlayerConfig\<lparr>Args := sampleArgs\<lparr>PlayerResponse := ''null''\<rparr>\<rparr>"

definition legacyConfig :: playerConfig where
  "legacyConfig =
     zeroPlayerConfig
       \<lparr>Assets_JS := ''/player.js'',
        Args := sampleArgs\<lparr>URLEncodedFmtStreamMap := ''itag=18&url=u,itag=22&url=v,'',
                          AdaptiveFmts := ''itag=137&url=w,''\<rparr>\<rparr>"

definition nullQuery :: Values where
  "nullQuery = [''player_response'' \<mapsto> (''null'', [])]"

definition muxedConfig :: playerConfig where
  "muxedConfig =
     zeroPlayerConfig\<lparr>Args := sampleArgs\<lparr>URLEncodedFmtStreamMap := ''itag=18&url=u''\<rparr>\<rparr>"

subsection \<open>Notions used in the statements\<close>

text \<open>\<^verbatim>\<open>Values.Get\<close>: the first value of a key, the empty string when the key is absent.\<close>

definition Values_Get :: "Values \<Rightarrow> string \<Rightarrow> string" where
  "Values_Get query k = (case query k of None \<Rightarrow> [] | Some (v0, vs) \<Rightarrow> v0)"

text \<open>
  The configuration that the spec describes for the fallback endpoint: each recognized
  key of the answer populates its field, every other key is ignored, and the location
  of the player script stays empty.
\<close>

definition spec_fallbackConfig :: "Values \<Rightarrow> playerConfig" where
  "spec_fallbackConfig query =
     \<lparr>Assets_JS = [],
      Args = \<lparr>Errorcode = Values_Get query ''errorcode'',
              Reason = Values_Get query ''reason'',
              Status = Values_Get query ''status'',
              PlayerResponse = Values_Get query ''player_response'',
              URLEncodedFmtStreamMap = Values_Get query ''url_encoded_fmt_stream_map'',
              AdaptiveFmts = Values_Get query ''adaptive_fmts'',
              Dashmpd = Values_Get query ''dashmpd''\<rparr>\<rparr>"

definition recognizedKeys :: "string list" where
  "recognizedKeys =
     [''errorcode'', ''reason'', ''status'', ''player_response'',
      ''url_encoded_fmt_stream_map'', ''adaptive_fmts'', ''dashmpd'']"

text \<open>What a result says of failure: the error returned, or the panic.\<close>

fun failure :: "('a option \<times> error option) outcome \<Rightarrow> error option outcome" where
  "failure (Returns (info, err)) = Returns err"
| "failure Panics = Panics"

text \<open>The \<^verbatim>\<open>VideoInfo\<close> of a call that returns one and no error.\<close>

fun returnedInfo :: "('a option \<times> error option) outcome \<times> string list \<Rightarrow> 'a option" where
  "returnedInfo (Returns (Some info, None), reqs) = Some info"
| "returnedInfo r = None"

text \<open>A string of one or more decimal digits.\<close>

definition isDigits :: "string \<Rightarrow> bool" where
  "isDigits s = (s \<noteq> [] \<and> list_all isDigit s)"

text \<open>An optional sign and then one or more decimal digits.\<close>

definition isNumeric :: "string \<Rightarrow> bool" where
  "isNumeric s =
     (case s of
        [] \<Rightarrow> False
      | ch # r \<Rightarrow> if ch = CHR ''-'' \<or> ch = CHR ''+'' then isDigits r else isDigits s)"

text \<open>A player response as the sample, with another count of seconds.\<close>

definition responseOfLength :: "string \<Rightarrow> string playerResponse" where
  "responseOfLength seconds = sampleResponse\<lparr>VideoDetails_LengthSeconds := seconds\<rparr>"

section \<open>Properties\<close>

declare addFormatsByQueryStrings.simps [simp del]

subsection \<open>The stream maps\<close>

lemma ReadString_rest:
  "ReadString delim rd = (line, rest, False) \<Longrightarrow> length rest < length rd"
  by (induction rd arbitrary: line) (auto split: if_splits prod.splits)

lemma ReadString_no_delim: "delim \<notin> set rd \<Longrightarrow> ReadString delim rd = (rd, [], True)"
  by (induction rd) auto

lemma ReadString_segment:
  "delim \<notin> set seg \<Longrightarrow> ReadString delim (seg @ delim # rd) = (seg @ [delim], rd, False)"
  by (induction seg) auto

text \<open>A stream map is read segment by segment, and what follows the last comma is
  never decoded.\<close>

lemma addFormatsByQueryStrings_no_comma:
  "CHR '','' \<notin> set rd \<Longrightarrow> addFormatsByQueryStrings c formats rd adaptive = formats"
  by (subst addFormatsByQueryStrings.simps) (simp add: ReadString_no_delim)

lemma addFormatsByQueryStrings_segment:
  "CHR '','' \<notin> set seg \<Longrightarrow>
   addFormatsByQueryStrings c formats (seg @ CHR '','' # rd) adaptive =
     addFormatsByQueryStrings c (fst (addByQueryString c formats seg adaptive)) rd adaptive"
  by (subst addFormatsByQueryStrings.simps) (simp add: ReadString_segment)

text \<open>
  C2. The claim: every valid segment of a stream map gives a format, and a
  configuration whose muxed stream map is the one entry of itag 18 gives exactly one
  format. The code does otherwise: the stream map with the single entry
  \<^verbatim>\<open>itag=18&url=u\<close> has no comma, \<^verbatim>\<open>ReadString\<close> returns it together with \<^verbatim>\<open>io.EOF\<close>,
  and the loop leaves before decoding it. Whatever \<^verbatim>\<open>addByQueryString\<close> does, the format
  list stays as it was; of two entries only the first is decoded; and from the
  configuration with that stream map and no player response the call returns a
  \<^verbatim>\<open>VideoInfo\<close> with no format.
\<close>

theorem addFormatsByQueryStrings_single_entry:
  "addFormatsByQueryStrings c formats ''itag=18&url=u'' False = formats
   \<and> addFormatsByQueryStrings c formats ''itag=18&url=u,itag=22&url=v'' False =
       fst (addByQueryString c formats ''itag=18&url=u'' False)
   \<and> extractFromConfig c (zeroVideoInfo\<lparr>ID := vid\<rparr>) muxedConfig =
       Returns (Some (zeroVideoInfo\<lparr>ID := vid\<rparr>), None)"
proof (intro conjI)
  show one: "addFormatsByQueryStrings c formats ''itag=18&url=u'' False = formats" for formats
    by (rule addFormatsByQueryStrings_no_comma) simp
  have "addFormatsByQueryStrings c formats (''itag=18&url=u'' @ CHR '','' # ''itag=22&url=v'') False =
      addFormatsByQueryStrings c (fst (addByQueryString c formats ''itag=18&url=u'' False))
        ''itag=22&url=v'' False"
    by (rule addFormatsByQueryStrings_segment) simp
  also have "\<dots> = fst (addByQueryString c formats ''itag=18&url=u'' False)"
    by (rule addFormatsByQueryStrings_no_comma) simp
  finally show "addFormatsByQueryStrings c formats ''itag=18&url=u,itag=22&url=v'' False =
      fst (addByQueryString c formats ''itag=18&url=u'' False)"
    by simp
  have "legacyFormats c (Args muxedConfig) = []"
    by (simp add: legacyFormats_def muxedConfig_def sampleArgs_def zeroPlayerConfig_def one)
  then show "extractFromConfig c (zeroVideoInfo\<lparr>ID := vid\<rparr>) muxedConfig =
      Returns (Some (zeroVideoInfo\<lparr>ID := vid\<rparr>), None)"
    by (simp add: extractFromConfig_def playerResponseStep_def muxedConfig_def sampleArgs_def
          zeroPlayerConfig_def zeroVideoInfo_def Let_def)
qed

subsection \<open>The sample pages\<close>

lemma videoInfoRequest_sample: "videoInfoRequest (sampleEnv h cfg q p) ''abc'' = sampleRequest"
  by (simp add: videoInfoRequest_def sampleEnv_def) code_simp

lemma samplePage_config: "regexpPlayerConfig_FindSubmatch samplePage = Some ''{}''"
  by code_simp

lemma plainPage_config: "regexpPlayerConfig_FindSubmatch plainPage = None"
  by code_simp

lemma samplePage_initialData: "regexpInitialData_FindSubmatch samplePage = None"
  by code_simp

lemma plainPage_initialData: "regexpInitialData_FindSubmatch plainPage = None"
  by code_simp

subsection \<open>The stages of the call\<close>

lemma getVideoInfoFromHTML_resolved:
  "resolveConfig c vid html = (Inr jsonConfig, reqs) \<Longrightarrow>
   getVideoInfoFromHTML c vid html =
     (extractFromConfig c (metadataStep c vid html) jsonConfig, reqs)"
  by (simp add: getVideoInfoFromHTML_def)

lemma getVideoInfoFromHTML_unresolved:
  "resolveConfig c vid html = (Inl err, reqs) \<Longrightarrow>
   getVideoInfoFromHTML c vid html = (Returns (None, Some err), reqs)"
  by (simp add: getVideoInfoFromHTML_def)

lemma extractFromConfig_fail:
  "Status (Args jsonConfig) = ''fail'' \<Longrightarrow>
   extractFromConfig c info jsonConfig =
     Returns (None, Some (StatusFailError (Errorcode (Args jsonConfig))
                                          (Reason (Args jsonConfig))))"
  by (simp add: extractFromConfig_def Let_def)

lemma resolveConfig_decoders:
  "resolveConfig (c\<lparr>addByQueryString := q, addByInfo := i\<rparr>) vid html =
     resolveConfig c vid html"
  by (simp add: resolveConfig_def videoInfoRequest_def split: option.splits sum.splits)

lemma resolveConfig_embedded:
  "regexpPlayerConfig_FindSubmatch html = Some m \<Longrightarrow>
   resolveConfig c vid html =
     (case json_Unmarshal_playerConfig c m of
        Inl err \<Rightarrow> (Inl (ConfigDecodeError err), [])
      | Inr jsonConfig \<Rightarrow> (Inr jsonConfig, []))"
  by (simp add: resolveConfig_def)

lemma resolveConfig_fallback:
  "regexpPlayerConfig_FindSubmatch html = None \<Longrightarrow>
   resolveConfig c vid html =
     (case httpGetAndCheckResponseReadBody c (videoInfoRequest c vid) of
        Inl err \<Rightarrow> (Inl (ReadVideoInfoError err), [videoInfoRequest c vid])
      | Inr body \<Rightarrow>
          (case url_ParseQuery c body of
             Inl err \<Rightarrow> (Inl (ParseVideoInfoError err), [videoInfoRequest c vid])
           | Inr query \<Rightarrow>
               (Inr (zeroPlayerConfig\<lparr>Args := argsFromQuery query (Args zeroPlayerConfig)\<rparr>),
                [videoInfoRequest c vid])))"
  by (simp add: resolveConfig_def)

lemma snd_getVideoInfoFromHTML:
  "snd (getVideoInfoFromHTML c vid html) = snd (resolveConfig c vid html)"
  by (cases "resolveConfig c vid html")
     (auto simp: getVideoInfoFromHTML_def split: sum.splits)

text \<open>The configuration built from the answer of the fallback endpoint, field by field.\<close>

lemma setArg_fields:
  "setArg q k (\<lambda>v a. a\<lparr>Errorcode := v\<rparr>) args =
     args\<lparr>Errorcode := (case q k of None \<Rightarrow> Errorcode args | Some (v, vs) \<Rightarrow> v)\<rparr>"
  "setArg q k (\<lambda>v a. a\<lparr>Reason := v\<rparr>) args =
     args\<lparr>Reason := (case q k of None \<Rightarrow> Reason args | Some (v, vs) \<Rightarrow> v)\<rparr>"
  "setArg q k (\<lambda>v a. a\<lparr>Status := v\<rparr>) args =
     args\<lparr>Status := (case q k of None \<Rightarrow> Status args | Some (v, vs) \<Rightarrow> v)\<rparr>"
  "setArg q k (\<lambda>v a. a\<lparr>PlayerResponse := v\<rparr>) args =
     args\<lparr>PlayerResponse := (case q k of None \<Rightarrow> PlayerResponse args | Some (v, vs) \<Rightarrow> v)\<rparr>"
  "setArg q k (\<lambda>v a. a\<lparr>URLEncodedFmtStreamMap := v\<rparr>) args =
     args\<lparr>URLEncodedFmtStreamMap :=
       (case q k of None \<Rightarrow> URLEncodedFmtStreamMap args | Some (v, vs) \<Rightarrow> v)\<rparr>"
  "setArg q k (\<lambda>v a. a\<lparr>AdaptiveFmts := v\<rparr>) args =
     args\<lparr>AdaptiveFmts := (case q k of None \<Rightarrow> AdaptiveFmts args | Some (v, vs) \<Rightarrow> v)\<rparr>"
  "setArg q k (\<lambda>v a. a\<lparr>Dashmpd := v\<rparr>) args =
     args\<lparr>Dashmpd := (case q k of None \<Rightarrow> Dashmpd args | Some (v, vs) \<Rightarrow> v)\<rparr>"
  by (simp_all add: setArg_def split: option.splits)

lemma argsFromQuery_zero:
  "zeroPlayerConfig\<lparr>Args := argsFromQuery query (Args zeroPlayerConfig)\<rparr> =
     \<lparr>Assets_JS = [],
      Args = \<lparr>Errorcode = Values_Get query ''errorcode'',
              Reason = Values_Get query ''reason'',
              Status = Values_Get query ''status'',
              PlayerResponse = Values_Get query ''player_response'',
              URLEncodedFmtStreamMap = Values_Get query ''url_encoded_fmt_stream_map'',
              AdaptiveFmts = Values_Get query ''adaptive_fmts'',
              Dashmpd = Values_Get query ''dashmpd''\<rparr>\<rparr>"
  by (simp add: argsFromQuery_def setArg_fields zeroPlayerConfig_def Values_Get_def
        cong: option.case_cong)

subsection \<open>Where the configuration comes from\<close>

lemma resolveConfig_fallback_config:
  assumes "regexpPlayerConfig_FindSubmatch html = None"
    and "httpGetAndCheckResponseReadBody c (videoInfoRequest c vid) = Inr body"
    and "url_ParseQuery c body = Inr query"
  shows "resolveConfig c vid html = (Inr (spec_fallbackConfig query), [videoInfoRequest c vid])"
  using assms by (simp add: resolveConfig_fallback argsFromQuery_zero spec_fallbackConfig_def)

lemma setArg_unknown_key:
  "k \<noteq> k' \<Longrightarrow> setArg (query(k \<mapsto> v)) k' upd args = setArg query k' upd args"
  by (simp add: setArg_def)

lemma argsFromQuery_unknown_key:
  "k \<notin> set recognizedKeys \<Longrightarrow> argsFromQuery (query(k \<mapsto> v)) args = argsFromQuery query args"
  by (simp add: argsFromQuery_def recognizedKeys_def setArg_unknown_key)

text \<open>
  C3. A page with the marker of the embedded configuration sends no request, and a
  configuration that does not decode there is an error of the call. A page without
  the marker sends exactly one request, to the \<^verbatim>\<open>get_video_info\<close> endpoint with the
  parameters \<^verbatim>\<open>video_id\<close> and \<^verbatim>\<open>eurl\<close>; when the request fails the call returns that
  error; when it succeeds and its body parses as a query string, the configuration is
  the one the spec describes, a key that is not recognized changes nothing, and the
  call goes on with it exactly as with an embedded configuration that decodes to the
  same value.
\<close>

theorem config_resolution:
  "(regexpPlayerConfig_FindSubmatch html = Some m \<longrightarrow>
      snd (getVideoInfoFromHTML c vid html) = [] \<and>
      (json_Unmarshal_playerConfig c m = Inl err \<longrightarrow>
         getVideoInfoFromHTML c vid html = (Returns (None, Some (ConfigDecodeError err)), [])))
   \<and> (regexpPlayerConfig_FindSubmatch html = None \<longrightarrow>
      snd (getVideoInfoFromHTML c vid html) = [videoInfoRequest c vid] \<and>
      videoInfoRequest c vid =
        youtubeVideoInfoURL @ ''?'' @
          url_Values_Encode c
            [''video_id'' \<mapsto> (vid, []), ''eurl'' \<mapsto> (youtubeVideoEURL @ vid, [])] \<and>
      (httpGetAndCheckResponseReadBody c (videoInfoRequest c vid) = Inl err \<longrightarrow>
         getVideoInfoFromHTML c vid html =
           (Returns (None, Some (ReadVideoInfoError err)), [videoInfoRequest c vid])) \<and>
      (httpGetAndCheckResponseReadBody c (videoInfoRequest c vid) = Inr body \<and>
       url_ParseQuery c body = Inr query \<longrightarrow>
         resolveConfig c vid html = (Inr (spec_fallbackConfig query), [videoInfoRequest c vid]) \<and>
         (k \<notin> set recognizedKeys \<longrightarrow>
            argsFromQuery (query(k \<mapsto> v)) args = argsFromQuery query args) \<and>
         (regexpPlayerConfig_FindSubmatch html' = Some m' \<and>
          json_Unmarshal_playerConfig c m' = Inr (spec_fallbackConfig query) \<and>
          regexpInitialData_FindSubmatch html' = regexpInitialData_FindSubmatch html \<longrightarrow>
            fst (getVideoInfoFromHTML c vid html) = fst (getVideoInfoFromHTML c vid html'))))"
proof (intro conjI impI)
  assume "regexpPlayerConfig_FindSubmatch html = Some m"
  then show "snd (getVideoInfoFromHTML c vid html) = []"
    by (simp add: snd_getVideoInfoFromHTML resolveConfig_embedded split: sum.splits)
next
  assume "regexpPlayerConfig_FindSubmatch html = Some m"
    and "json_Unmarshal_playerConfig c m = Inl err"
  then show "getVideoInfoFromHTML c vid html =
      (Returns (None, Some (ConfigDecodeError err)), [])"
    by (simp add: getVideoInfoFromHTML_unresolved resolveConfig_embedded)
next
  assume "regexpPlayerConfig_FindSubmatch html = None"
  then show "snd (getVideoInfoFromHTML c vid html) = [videoInfoRequest c vid]"
    by (simp add: snd_getVideoInfoFromHTML resolveConfig_fallback split: sum.splits)
next
  show "videoInfoRequest c vid =
      youtubeVideoInfoURL @ ''?'' @
        url_Values_Encode c
          [''video_id'' \<mapsto> (vid, []), ''eurl'' \<mapsto> (youtubeVideoEURL @ vid, [])]"
    by (simp add: videoInfoRequest_def)
next
  assume "regexpPlayerConfig_FindSubmatch html = None"
    and "httpGetAndCheckResponseReadBody c (videoInfoRequest c vid) = Inl err"
  then show "getVideoInfoFromHTML c vid html =
      (Returns (None, Some (ReadVideoInfoError err)), [videoInfoRequest c vid])"
    by (simp add: getVideoInfoFromHTML_unresolved resolveConfig_fallback)
next
  assume none: "regexpPlayerConfig_FindSubmatch html = None"
    and ok: "httpGetAndCheckResponseReadBody c (videoInfoRequest c vid) = Inr body \<and>
      url_ParseQuery c body = Inr query"
  then show r: "resolveConfig c vid html =
      (Inr (spec_fallbackConfig query), [videoInfoRequest c vid])"
    by (simp add: resolveConfig_fallback_config)
  assume k: "k \<notin> set recognizedKeys"
  then show "argsFromQuery (query(k \<mapsto> v)) args = argsFromQuery query args"
    by (rule argsFromQuery_unknown_key)
next
  assume none: "regexpPlayerConfig_FindSubmatch html = None"
    and ok: "httpGetAndCheckResponseReadBody c (videoInfoRequest c vid) = Inr body \<and>
      url_ParseQuery c body = Inr query"
    and emb: "regexpPlayerConfig_FindSubmatch html' = Some m' \<and>
      json_Unmarshal_playerConfig c m' = Inr (spec_fallbackConfig query) \<and>
      regexpInitialData_FindSubmatch html' = regexpInitialData_FindSubmatch html"
  have "resolveConfig c vid html = (Inr (spec_fallbackConfig query), [videoInfoRequest c vid])"
    using none ok by (simp add: resolveConfig_fallback_config)
  moreover have "resolveConfig c vid html' = (Inr (spec_fallbackConfig query), [])"
    using emb by (simp add: resolveConfig_embedded)
  moreover have "metadataStep c vid html' = metadataStep c vid html"
    using emb by (simp add: metadataStep_def)
  ultimately show "fst (getVideoInfoFromHTML c vid html) = fst (getVideoInfoFromHTML c vid html')"
    by (simp add: getVideoInfoFromHTML_resolved)
qed

lemma spec_fallbackConfig_failedQuery: "spec_fallbackConfig failedQuery = failedConfig"
  by (simp add: spec_fallbackConfig_def failedQuery_def failedConfig_def Values_Get_def
        zeroPlayerConfig_def sampleArgs_def)

theorem config_resolution_witness:
  "getVideoInfoFromHTML
     (sampleEnv (Inl ''offline'') (Inl ''invalid character'') (Inl []) (Inl []))
     ''abc'' samplePage =
     (Returns (None, Some (ConfigDecodeError ''invalid character'')), [])
   \<and> getVideoInfoFromHTML
     (sampleEnv (Inl ''offline'') (Inl ''invalid character'') (Inl []) (Inl []))
     ''abc'' plainPage =
     (Returns (None, Some (ReadVideoInfoError ''offline'')),
      [sampleRequest])
   \<and> resolveConfig
     (sampleEnv (Inr ''status=fail'') (Inr failedConfig) (Inr failedQuery) (Inl []))
     ''abc'' plainPage =
     (Inr failedConfig, [sampleRequest])
   \<and> argsFromQuery (failedQuery(''csn'' \<mapsto> (''y'', []))) sampleArgs =
       argsFromQuery failedQuery sampleArgs
   \<and> fst (getVideoInfoFromHTML
       (sampleEnv (Inr ''status=fail'') (Inr failedConfig) (Inr failedQuery) (Inl []))
       ''abc'' plainPage) =
     fst (getVideoInfoFromHTML
       (sampleEnv (Inr ''status=fail'') (Inr failedConfig) (Inr failedQuery) (Inl []))
       ''abc'' samplePage)"
proof -
  let ?bad = "sampleEnv (Inl ''offline'') (Inl ''invalid character'') (Inl []) (Inl [])"
  let ?good = "sampleEnv (Inr ''status=fail'') (Inr failedConfig) (Inr failedQuery) (Inl [])"
  have req: "videoInfoRequest ?bad ''abc'' = sampleRequest"
    "videoInfoRequest ?good ''abc'' = sampleRequest"
    by (rule videoInfoRequest_sample)+
  have key: "''csn'' \<notin> set recognizedKeys"
    by (simp add: recognizedKeys_def)
  have "getVideoInfoFromHTML ?bad ''abc'' samplePage =
      (Returns (None, Some (ConfigDecodeError ''invalid character'')), [])"
    using config_resolution [where html = samplePage and m = "''{}''" and c = ?bad
        and err = "''invalid character''" and vid = "''abc''"]
    by (simp add: samplePage_config sampleEnv_def)
  moreover have "getVideoInfoFromHTML ?bad ''abc'' plainPage =
      (Returns (None, Some (ReadVideoInfoError ''offline'')),
       [sampleRequest])"
    using config_resolution [where html = plainPage and c = ?bad
        and err = "''offline''" and vid = "''abc''"] req
    by (simp add: plainPage_config sampleEnv_def)
  moreover have "resolveConfig ?good ''abc'' plainPage =
       (Inr failedConfig, [sampleRequest])
     \<and> argsFromQuery (failedQuery(''csn'' \<mapsto> (''y'', []))) sampleArgs =
         argsFromQuery failedQuery sampleArgs
     \<and> fst (getVideoInfoFromHTML ?good ''abc'' plainPage) =
         fst (getVideoInfoFromHTML ?good ''abc'' samplePage)"
    using config_resolution [where html = plainPage and c = ?good and vid = "''abc''"
        and body = "''status=fail''" and query = failedQuery and k = "''csn''"
        and v = "(''y'', [])" and args = sampleArgs and html' = samplePage and m' = "''{}''"]
      req key
    by (simp add: plainPage_config samplePage_config sampleEnv_def
          spec_fallbackConfig_failedQuery samplePage_initialData plainPage_initialData)
  ultimately show ?thesis by simp
qed

subsection \<open>The status gate\<close>

text \<open>
  C1. When the configuration that the call has obtained, from the page or from the
  fallback endpoint, has the status \<^verbatim>\<open>fail\<close>, the call returns no \<^verbatim>\<open>VideoInfo\<close> and the
  error \<^verbatim>\<open>Error <errorcode>:<reason>\<close> of that configuration. No format is decoded:
  the result is the same whatever \<^verbatim>\<open>addByQueryString\<close> and \<^verbatim>\<open>addByInfo\<close> would do.
\<close>

theorem status_fail_aborts:
  assumes "resolveConfig c vid html = (Inr jsonConfig, reqs)"
    and "Status (Args jsonConfig) = ''fail''"
  shows "getVideoInfoFromHTML c vid html =
           (Returns (None, Some (StatusFailError (Errorcode (Args jsonConfig))
                                                 (Reason (Args jsonConfig)))), reqs)
         \<and> getVideoInfoFromHTML (c\<lparr>addByQueryString := q, addByInfo := i\<rparr>) vid html =
             getVideoInfoFromHTML c vid html
         \<and> errorString (StatusFailError (Errorcode (Args jsonConfig)) (Reason (Args jsonConfig))) =
             ''Error '' @ Errorcode (Args jsonConfig) @ '':'' @ Reason (Args jsonConfig)"
proof -
  have "resolveConfig (c\<lparr>addByQueryString := q, addByInfo := i\<rparr>) vid html =
          (Inr jsonConfig, reqs)"
    using assms(1) by (simp add: resolveConfig_decoders)
  then show ?thesis
    using assms by (simp add: getVideoInfoFromHTML_resolved extractFromConfig_fail)
qed

theorem status_fail_aborts_witness:
  "getVideoInfoFromHTML (sampleEnv (Inl ''offline'') (Inr failedConfig) (Inl []) (Inl []))
     ''abc'' samplePage
     = (Returns (None, Some (StatusFailError ''100'' ''Video not found'')), [])
   \<and> getVideoInfoFromHTML
       (sampleEnv (Inr ''status=fail'') (Inl ''invalid character'') (Inr failedQuery) (Inl []))
       ''abc'' plainPage
     = (Returns (None, Some (StatusFailError ''100'' ''Video not found'')), [sampleRequest])
   \<and> errorString (StatusFailError ''100'' ''Video not found'') = ''Error 100:Video not found''"
proof -
  let ?c = "sampleEnv (Inl ''offline'') (Inr failedConfig) (Inl []) (Inl [])"
  let ?d = "sampleEnv (Inr ''status=fail'') (Inl ''invalid character'') (Inr failedQuery) (Inl [])"
  have embedded: "resolveConfig ?c ''abc'' samplePage = (Inr failedConfig, [])"
    by (simp add: resolveConfig_embedded samplePage_config sampleEnv_def)
  have "resolveConfig ?d ''abc'' plainPage =
      (Inr (spec_fallbackConfig failedQuery), [videoInfoRequest ?d ''abc''])"
    by (rule resolveConfig_fallback_config)
       (simp_all add: plainPage_config sampleEnv_def)
  then have fallback: "resolveConfig ?d ''abc'' plainPage = (Inr failedConfig, [sampleRequest])"
    by (simp add: spec_fallbackConfig_failedQuery videoInfoRequest_sample)
  have failed: "Status (Args failedConfig) = ''fail''"
    by (simp add: failedConfig_def)
  from status_fail_aborts [OF embedded failed] status_fail_aborts [OF fallback failed]
  show ?thesis
    by (simp add: failedConfig_def)
qed

subsection \<open>The page metadata\<close>

lemma applyMetaDataRow_frame:
  "ID (applyMetaDataRow info kv) = ID info"
  "Title (applyMetaDataRow info kv) = Title info"
  "Description (applyMetaDataRow info kv) = Description info"
  "DatePublished (applyMetaDataRow info kv) = DatePublished info"
  "Formats (applyMetaDataRow info kv) = Formats info"
  "DASHManifestURL (applyMetaDataRow info kv) = DASHManifestURL info"
  "HLSManifestURL (applyMetaDataRow info kv) = HLSManifestURL info"
  "Keywords (applyMetaDataRow info kv) = Keywords info"
  "Uploader (applyMetaDataRow info kv) = Uploader info"
  "Duration (applyMetaDataRow info kv) = Duration info"
  "htmlPlayerFile (applyMetaDataRow info kv) = htmlPlayerFile info"
  by (simp_all add: applyMetaDataRow_def split: prod.splits)

lemma foldl_applyMetaDataRow_frame:
  "ID (foldl applyMetaDataRow info rows) = ID info"
  "Title (foldl applyMetaDataRow info rows) = Title info"
  "Description (foldl applyMetaDataRow info rows) = Description info"
  "DatePublished (foldl applyMetaDataRow info rows) = DatePublished info"
  "Formats (foldl applyMetaDataRow info rows) = Formats info"
  "DASHManifestURL (foldl applyMetaDataRow info rows) = DASHManifestURL info"
  "HLSManifestURL (foldl applyMetaDataRow info rows) = HLSManifestURL info"
  "Keywords (foldl applyMetaDataRow info rows) = Keywords info"
  "Uploader (foldl applyMetaDataRow info rows) = Uploader info"
  "Duration (foldl applyMetaDataRow info rows) = Duration info"
  "htmlPlayerFile (foldl applyMetaDataRow info rows) = htmlPlayerFile info"
  by (induction rows arbitrary: info; simp add: applyMetaDataRow_frame)+

lemma addMetadata_frame:
  "ID (fst (addMetadata c info m)) = ID info"
  "Title (fst (addMetadata c info m)) = Title info"
  "DatePublished (fst (addMetadata c info m)) = DatePublished info"
  "Formats (fst (addMetadata c info m)) = Formats info"
  "DASHManifestURL (fst (addMetadata c info m)) = DASHManifestURL info"
  "HLSManifestURL (fst (addMetadata c info m)) = HLSManifestURL info"
  "Keywords (fst (addMetadata c info m)) = Keywords info"
  "Uploader (fst (addMetadata c info m)) = Uploader info"
  "Duration (fst (addMetadata c info m)) = Duration info"
  "htmlPlayerFile (fst (addMetadata c info m)) = htmlPlayerFile info"
  by (simp_all add: addMetadata_def Let_def foldl_applyMetaDataRow_frame
        split: sum.splits option.splits)

lemma metadataStep_fields:
  "ID (metadataStep c vid html) = vid"
  "Title (metadataStep c vid html) = []"
  "DatePublished (metadataStep c vid html) = zeroTime"
  "Formats (metadataStep c vid html) = []"
  "DASHManifestURL (metadataStep c vid html) = []"
  "HLSManifestURL (metadataStep c vid html) = []"
  "Keywords (metadataStep c vid html) = []"
  "Uploader (metadataStep c vid html) = []"
  "Duration (metadataStep c vid html) = 0"
  "htmlPlayerFile (metadataStep c vid html) = []"
  by (simp_all add: metadataStep_def Let_def addMetadata_frame zeroVideoInfo_def
        split: option.splits)

subsection \<open>The player response\<close>

lemma playerResponseStep_absent:
  "PlayerResponse args = [] \<Longrightarrow>
   playerResponseStep c args info formats = Returns (Inr (info, formats))"
  by (simp add: playerResponseStep_def)

lemma playerResponseStep_undecodable:
  "PlayerResponse args \<noteq> [] \<Longrightarrow>
   json_Unmarshal_playerResponse c (PlayerResponse args) = Inl err \<Longrightarrow>
   playerResponseStep c args info formats = Returns (Inl (PlayerResponseDecodeError err))"
  by (simp add: playerResponseStep_def)

lemma playerResponseStep_nil:
  "PlayerResponse args \<noteq> [] \<Longrightarrow>
   json_Unmarshal_playerResponse c (PlayerResponse args) = Inr None \<Longrightarrow>
   playerResponseStep c args info formats = Panics"
  by (simp add: playerResponseStep_def)

lemma playerResponseStep_unplayable:
  "PlayerResponse args \<noteq> [] \<Longrightarrow>
   json_Unmarshal_playerResponse c (PlayerResponse args) = Inr (Some response) \<Longrightarrow>
   PlayabilityStatus_Status response \<noteq> ''OK'' \<Longrightarrow>
   playerResponseStep c args info formats =
     Returns (Inl (UnavailableError (PlayabilityStatus_Reason response)))"
  by (simp add: playerResponseStep_def)

lemma setDuration_frame:
  "ID (setDuration s info) = ID info"
  "htmlPlayerFile (setDuration s info) = htmlPlayerFile info"
  "Description (setDuration s info) = Description info"
  "Artist (setDuration s info) = Artist info"
  "Song (setDuration s info) = Song info"
  "Album (setDuration s info) = Album info"
  "Writers (setDuration s info) = Writers info"
  by (simp_all add: setDuration_def split: option.splits)

lemma setDuration_Duration:
  "Duration (setDuration s info) =
     (case Atoi s of Some val \<Rightarrow> if s = [] then Duration info else int64 (int64 val * Second)
      | None \<Rightarrow> Duration info)"
  by (simp add: setDuration_def split: option.splits)

lemma playerResponseStep_playable:
  assumes "PlayerResponse args \<noteq> []"
    and "json_Unmarshal_playerResponse c (PlayerResponse args) = Inr (Some response)"
    and "PlayabilityStatus_Status response = ''OK''"
  shows "\<exists>info'. playerResponseStep c args info formats =
           Returns (Inr (info',
             addFormatsByInfos c
               (addFormatsByInfos c formats (StreamingData_Formats response) False)
               (StreamingData_AdaptiveFormats response) True))
         \<and> ID info' = ID info \<and> htmlPlayerFile info' = htmlPlayerFile info
         \<and> Description info' = Description info \<and> Artist info' = Artist info
         \<and> Song info' = Song info \<and> Album info' = Album info \<and> Writers info' = Writers info
         \<and> Title info' = VideoDetails_Title response
         \<and> Uploader info' = VideoDetails_Author response
         \<and> Duration info' =
             Duration (setDuration (VideoDetails_LengthSeconds response) info)"
  using assms
  by (simp add: playerResponseStep_def Let_def setDuration_frame setDuration_Duration
        split: sum.splits option.splits)

lemma extractFromConfig_pass:
  "Status (Args jsonConfig) \<noteq> ''fail'' \<Longrightarrow>
   extractFromConfig c info jsonConfig =
     (case playerResponseStep c (Args jsonConfig) info (legacyFormats c (Args jsonConfig)) of
        Panics \<Rightarrow> Panics
      | Returns (Inl err) \<Rightarrow> Returns (None, Some err)
      | Returns (Inr (info', formats)) \<Rightarrow>
          Returns (Some ((if htmlPlayerFile info' = [] then
                            info'\<lparr>htmlPlayerFile := Assets_JS jsonConfig\<rparr>
                          else info')\<lparr>Formats := formats\<rparr>), None))"
  by (simp add: extractFromConfig_def Let_def split: outcome.splits sum.splits prod.splits)

lemma addFormatsByQueryStrings_env:
  assumes "addByQueryString c' = addByQueryString c"
  shows "addFormatsByQueryStrings c' formats rd adaptive =
           addFormatsByQueryStrings c formats rd adaptive"
proof (induction rd arbitrary: formats rule: length_induct)
  case (1 rd)
  show ?case
  proof (cases "ReadString CHR '','' rd")
    case (fields line rest eof)
    show ?thesis
    proof (cases eof)
      case True
      with fields show ?thesis
        by (simp add: addFormatsByQueryStrings.simps [of _ _ rd])
    next
      case False
      with fields have "length rest < length rd"
        by (auto dest: ReadString_rest)
      with 1 have "addFormatsByQueryStrings c' fs rest adaptive =
          addFormatsByQueryStrings c fs rest adaptive" for fs
        by simp
      with fields False assms show ?thesis
        by (simp add: addFormatsByQueryStrings.simps [of _ _ rd])
    qed
  qed
qed

lemma unmarshal_playerResponse_irrelevant:
  "resolveConfig (c\<lparr>json_Unmarshal_playerResponse := u\<rparr>) vid html = resolveConfig c vid html"
  "metadataStep (c\<lparr>json_Unmarshal_playerResponse := u\<rparr>) vid html = metadataStep c vid html"
  "legacyFormats (c\<lparr>json_Unmarshal_playerResponse := u\<rparr>) args = legacyFormats c args"
  by (simp_all add: resolveConfig_def videoInfoRequest_def metadataStep_def addMetadata_def
        legacyFormats_def Let_def
        addFormatsByQueryStrings_env [of "c\<lparr>json_Unmarshal_playerResponse := u\<rparr>" c]
        split: option.splits sum.splits)

text \<open>
  C5. The claim, for a configuration that the call has obtained and that has passed the
  status gate: a player response that is there and does not decode is an error of the
  call; an empty player response skips the step and the call returns a \<^verbatim>\<open>VideoInfo\<close>
  populated from the legacy stream maps; a player response that decodes and whose
  playability status is not \<^verbatim>\<open>OK\<close> is an error that carries the reason. The code does
  the first: the error is the decoder's, wrapped. It does the second: whatever the
  decoder would answer, the call returns the \<^verbatim>\<open>VideoInfo\<close> of the metadata step with
  the location of the player script and with the formats read from the muxed stream
  map and then, when it is not empty, from the adaptive one, its title, uploader,
  duration, date and manifest URLs unset. It does the third when the decoder leaves
  a value. It does otherwise when the decoder accepts the text and leaves \<^verbatim>\<open>response\<close>
  at \<^verbatim>\<open>nil\<close>, as for the JSON literal \<^verbatim>\<open>null\<close>: there is no status \<^verbatim>\<open>OK\<close>, and the call
  panics at line 220 where the claim has it return an error.
\<close>

theorem player_response_step:
  assumes "resolveConfig c vid html = (Inr jsonConfig, reqs)"
    and "Status (Args jsonConfig) \<noteq> ''fail''"
  shows
    "(PlayerResponse (Args jsonConfig) \<noteq> [] \<and>
      json_Unmarshal_playerResponse c (PlayerResponse (Args jsonConfig)) = Inl err \<longrightarrow>
        getVideoInfoFromHTML c vid html =
          (Returns (None, Some (PlayerResponseDecodeError err)), reqs))
     \<and> (PlayerResponse (Args jsonConfig) = [] \<longrightarrow>
        getVideoInfoFromHTML c vid html =
          (Returns (Some ((metadataStep c vid html)
                      \<lparr>htmlPlayerFile := Assets_JS jsonConfig,
                       Formats :=
                         (if AdaptiveFmts (Args jsonConfig) \<noteq> [] then
                            addFormatsByQueryStrings c
                              (addFormatsByQueryStrings c []
                                 (URLEncodedFmtStreamMap (Args jsonConfig)) False)
                              (AdaptiveFmts (Args jsonConfig)) True
                          else
                            addFormatsByQueryStrings c []
                              (URLEncodedFmtStreamMap (Args jsonConfig)) False)\<rparr>),
                    None), reqs) \<and>
        getVideoInfoFromHTML (c\<lparr>json_Unmarshal_playerResponse := u\<rparr>) vid html =
          getVideoInfoFromHTML c vid html \<and>
        Title (metadataStep c vid html) = [] \<and> Uploader (metadataStep c vid html) = [] \<and>
        Duration (metadataStep c vid html) = 0 \<and>
        DatePublished (metadataStep c vid html) = zeroTime \<and>
        DASHManifestURL (metadataStep c vid html) = [] \<and>
        HLSManifestURL (metadataStep c vid html) = [])
     \<and> (PlayerResponse (Args jsonConfig) \<noteq> [] \<and>
        json_Unmarshal_playerResponse c (PlayerResponse (Args jsonConfig)) = Inr (Some response) \<and>
        PlayabilityStatus_Status response \<noteq> ''OK'' \<longrightarrow>
          getVideoInfoFromHTML c vid html =
            (Returns (None, Some (UnavailableError (PlayabilityStatus_Reason response))), reqs))
     \<and> (PlayerResponse (Args jsonConfig) \<noteq> [] \<and>
        json_Unmarshal_playerResponse c (PlayerResponse (Args jsonConfig)) = Inr None \<longrightarrow>
          getVideoInfoFromHTML c vid html = (Panics, reqs))"
proof (intro conjI impI)
  assume "PlayerResponse (Args jsonConfig) \<noteq> [] \<and>
    json_Unmarshal_playerResponse c (PlayerResponse (Args jsonConfig)) = Inl err"
  with assms show "getVideoInfoFromHTML c vid html =
      (Returns (None, Some (PlayerResponseDecodeError err)), reqs)"
    by (simp add: getVideoInfoFromHTML_resolved extractFromConfig_pass
          playerResponseStep_undecodable)
next
  let ?formats = "if AdaptiveFmts (Args jsonConfig) \<noteq> [] then
      addFormatsByQueryStrings c
        (addFormatsByQueryStrings c [] (URLEncodedFmtStreamMap (Args jsonConfig)) False)
        (AdaptiveFmts (Args jsonConfig)) True
    else addFormatsByQueryStrings c [] (URLEncodedFmtStreamMap (Args jsonConfig)) False"
  have legacy: "legacyFormats c (Args jsonConfig) = ?formats"
    by (simp add: legacyFormats_def Let_def)
  assume absent: "PlayerResponse (Args jsonConfig) = []"
  with assms legacy show plain: "getVideoInfoFromHTML c vid html =
      (Returns (Some ((metadataStep c vid html)
                  \<lparr>htmlPlayerFile := Assets_JS jsonConfig, Formats := ?formats\<rparr>), None), reqs)"
    by (simp add: getVideoInfoFromHTML_resolved extractFromConfig_pass
          playerResponseStep_absent metadataStep_fields)
  have "resolveConfig (c\<lparr>json_Unmarshal_playerResponse := u\<rparr>) vid html = (Inr jsonConfig, reqs)"
    using assms(1) by (simp add: unmarshal_playerResponse_irrelevant)
  with assms(2) absent legacy
  have "getVideoInfoFromHTML (c\<lparr>json_Unmarshal_playerResponse := u\<rparr>) vid html =
      (Returns (Some ((metadataStep c vid html)
                  \<lparr>htmlPlayerFile := Assets_JS jsonConfig, Formats := ?formats\<rparr>), None), reqs)"
    by (simp add: getVideoInfoFromHTML_resolved extractFromConfig_pass
          playerResponseStep_absent metadataStep_fields unmarshal_playerResponse_irrelevant)
  with plain show "getVideoInfoFromHTML (c\<lparr>json_Unmarshal_playerResponse := u\<rparr>) vid html =
      getVideoInfoFromHTML c vid html"
    by simp
next
  assume "PlayerResponse (Args jsonConfig) \<noteq> [] \<and>
    json_Unmarshal_playerResponse c (PlayerResponse (Args jsonConfig)) = Inr (Some response) \<and>
    PlayabilityStatus_Status response \<noteq> ''OK''"
  with assms show "getVideoInfoFromHTML c vid html =
      (Returns (None, Some (UnavailableError (PlayabilityStatus_Reason response))), reqs)"
    by (simp add: getVideoInfoFromHTML_resolved extractFromConfig_pass
          playerResponseStep_unplayable)
next
  assume "PlayerResponse (Args jsonConfig) \<noteq> [] \<and>
    json_Unmarshal_playerResponse c (PlayerResponse (Args jsonConfig)) = Inr None"
  with assms show "getVideoInfoFromHTML c vid html = (Panics, reqs)"
    by (simp add: getVideoInfoFromHTML_resolved extractFromConfig_pass playerResponseStep_nil)
qed (simp_all add: metadataStep_fields)

lemma resolveConfig_sample:
  "resolveConfig (sampleEnv h (Inr jsonConfig) q p) vid samplePage = (Inr jsonConfig, [])"
  by (simp add: resolveConfig_embedded samplePage_config sampleEnv_def)

lemma metadataStep_sample:
  "metadataStep c vid samplePage = zeroVideoInfo\<lparr>ID := vid\<rparr>"
  by (simp add: metadataStep_def samplePage_initialData)

lemma addFormatsByQueryStrings_sample:
  "CHR '','' \<notin> set seg \<Longrightarrow>
   addFormatsByQueryStrings (sampleEnv h cfg q p) formats (seg @ CHR '','' # rd) adaptive =
     addFormatsByQueryStrings (sampleEnv h cfg q p) (formats @ [(seg, adaptive)]) rd adaptive"
  by (simp add: addFormatsByQueryStrings_segment) (simp add: sampleEnv_def)

lemma addFormatsByQueryStrings_legacyConfig:
  "addFormatsByQueryStrings (sampleEnv h cfg q p) [] ''itag=18&url=u,itag=22&url=v,'' False =
     [(''itag=18&url=u'', False), (''itag=22&url=v'', False)]"
  "addFormatsByQueryStrings (sampleEnv h cfg q p)
     [(''itag=18&url=u'', False), (''itag=22&url=v'', False)] ''itag=137&url=w,'' True =
     [(''itag=18&url=u'', False), (''itag=22&url=v'', False), (''itag=137&url=w'', True)]"
proof -
  let ?c = "sampleEnv h cfg q p"
  have "addFormatsByQueryStrings ?c []
      (''itag=18&url=u'' @ CHR '','' # ''itag=22&url=v'' @ CHR '','' # []) False =
      addFormatsByQueryStrings ?c [(''itag=18&url=u'', False)]
        (''itag=22&url=v'' @ CHR '','' # []) False"
    by (subst addFormatsByQueryStrings_sample) simp_all
  also have "\<dots> = addFormatsByQueryStrings ?c
      [(''itag=18&url=u'', False), (''itag=22&url=v'', False)] [] False"
    by (subst addFormatsByQueryStrings_sample) simp_all
  also have "\<dots> = [(''itag=18&url=u'', False), (''itag=22&url=v'', False)]"
    by (rule addFormatsByQueryStrings_no_comma) simp
  finally show "addFormatsByQueryStrings ?c [] ''itag=18&url=u,itag=22&url=v,'' False =
      [(''itag=18&url=u'', False), (''itag=22&url=v'', False)]"
    by simp
  have "addFormatsByQueryStrings ?c [(''itag=18&url=u'', False), (''itag=22&url=v'', False)]
      (''itag=137&url=w'' @ CHR '','' # []) True =
      addFormatsByQueryStrings ?c
        [(''itag=18&url=u'', False), (''itag=22&url=v'', False), (''itag=137&url=w'', True)]
        [] True"
    by (subst addFormatsByQueryStrings_sample) simp_all
  also have "\<dots> =
      [(''itag=18&url=u'', False), (''itag=22&url=v'', False), (''itag=137&url=w'', True)]"
    by (rule addFormatsByQueryStrings_no_comma) simp
  finally show "addFormatsByQueryStrings ?c
      [(''itag=18&url=u'', False), (''itag=22&url=v'', False)] ''itag=137&url=w,'' True =
      [(''itag=18&url=u'', False), (''itag=22&url=v'', False), (''itag=137&url=w'', True)]"
    by simp
qed

theorem player_response_step_witness:
  "getVideoInfoFromHTML
     (sampleEnv (Inl ''offline'') (Inr responseConfig) (Inl [])
        (Inl ''unexpected end of JSON input''))
     ''abc'' samplePage =
     (Returns (None, Some (PlayerResponseDecodeError ''unexpected end of JSON input'')), [])
   \<and> getVideoInfoFromHTML
     (sampleEnv (Inl ''offline'') (Inr legacyConfig) (Inl [])
        (Inl ''unexpected end of JSON input''))
     ''abc'' samplePage =
     (Returns (Some (zeroVideoInfo
                 \<lparr>ID := ''abc'', htmlPlayerFile := ''/player.js'',
                  Formats := [(''itag=18&url=u'', False), (''itag=22&url=v'', False),
                              (''itag=137&url=w'', True)]\<rparr>), None), [])
   \<and> getVideoInfoFromHTML
     (sampleEnv (Inl ''offline'') (Inr responseConfig) (Inl [])
        (Inr (Some (sampleResponse\<lparr>PlayabilityStatus_Status := ''LOGIN_REQUIRED'',
                                    PlayabilityStatus_Reason := ''Sign in''\<rparr>))))
     ''abc'' samplePage =
     (Returns (None, Some (UnavailableError ''Sign in'')), [])
   \<and> getVideoInfoFromHTML
     (sampleEnv (Inr ''player_response=null'') (Inl ''invalid character'') (Inr nullQuery)
        (Inr None))
     ''abc'' plainPage = (Panics, [sampleRequest])"
proof -
  let ?undecodable = "sampleEnv (Inl ''offline'') (Inr responseConfig) (Inl [])
      (Inl ''unexpected end of JSON input'')"
  let ?absent = "sampleEnv (Inl ''offline'') (Inr legacyConfig) (Inl [])
      (Inl ''unexpected end of JSON input'')"
  let ?unplayable = "sampleEnv (Inl ''offline'') (Inr responseConfig) (Inl [])
      (Inr (Some (sampleResponse\<lparr>PlayabilityStatus_Status := ''LOGIN_REQUIRED'',
                                  PlayabilityStatus_Reason := ''Sign in''\<rparr>)))"
  let ?null = "sampleEnv (Inr ''player_response=null'') (Inl ''invalid character'')
      (Inr nullQuery) (Inr None)"
  have gate: "Status (Args responseConfig) \<noteq> ''fail''" "Status (Args legacyConfig) \<noteq> ''fail''"
    "Status (Args (spec_fallbackConfig nullQuery)) \<noteq> ''fail''"
    by (simp_all add: responseConfig_def legacyConfig_def sampleArgs_def zeroPlayerConfig_def
          spec_fallbackConfig_def nullQuery_def Values_Get_def)
  have "resolveConfig ?null ''abc'' plainPage =
      (Inr (spec_fallbackConfig nullQuery), [videoInfoRequest ?null ''abc''])"
    by (rule resolveConfig_fallback_config) (simp_all add: plainPage_config sampleEnv_def)
  then have fallback: "resolveConfig ?null ''abc'' plainPage =
      (Inr (spec_fallbackConfig nullQuery), [sampleRequest])"
    by (simp add: videoInfoRequest_sample)
  have "getVideoInfoFromHTML ?undecodable ''abc'' samplePage =
      (Returns (None, Some (PlayerResponseDecodeError ''unexpected end of JSON input'')), [])"
    using player_response_step [OF resolveConfig_sample gate(1),
        where err = "''unexpected end of JSON input''"]
    by (simp add: responseConfig_def sampleArgs_def sampleEnv_def)
  moreover have "getVideoInfoFromHTML ?absent ''abc'' samplePage =
      (Returns (Some (zeroVideoInfo
                  \<lparr>ID := ''abc'', htmlPlayerFile := ''/player.js'',
                   Formats := [(''itag=18&url=u'', False), (''itag=22&url=v'', False),
                               (''itag=137&url=w'', True)]\<rparr>), None), [])"
    using player_response_step [OF resolveConfig_sample gate(2)]
    by (simp add: metadataStep_sample legacyConfig_def sampleArgs_def zeroPlayerConfig_def
          addFormatsByQueryStrings_legacyConfig)
  moreover have "getVideoInfoFromHTML ?unplayable ''abc'' samplePage =
      (Returns (None, Some (UnavailableError ''Sign in'')), [])"
    using player_response_step [OF resolveConfig_sample gate(1),
        where response = "sampleResponse\<lparr>PlayabilityStatus_Status := ''LOGIN_REQUIRED'',
                                          PlayabilityStatus_Reason := ''Sign in''\<rparr>"]
    by (simp add: responseConfig_def sampleArgs_def sampleEnv_def)
  moreover have "getVideoInfoFromHTML ?null ''abc'' plainPage = (Panics, [sampleRequest])"
    using player_response_step [OF fallback gate(3)]
    by (simp add: spec_fallbackConfig_def nullQuery_def Values_Get_def sampleEnv_def)
  ultimately show ?thesis by simp
qed

subsection \<open>What the call returns\<close>

text \<open>Whenever the call returns, it returns a \<^verbatim>\<open>VideoInfo\<close> or an error and never both.\<close>

lemma extractFromConfig_info_or_error:
  "extractFromConfig c info jsonConfig = Returns (i, e) \<Longrightarrow>
   (i = None \<and> e \<noteq> None) \<or> (i \<noteq> None \<and> e = None)"
  by (auto simp: extractFromConfig_def Let_def
        split: if_splits outcome.splits sum.splits prod.splits)

lemma getVideoInfoFromHTML_info_or_error:
  "getVideoInfoFromHTML c vid html = (Returns (i, e), reqs) \<Longrightarrow>
   (i = None \<and> e \<noteq> None) \<or> (i \<noteq> None \<and> e = None)"
  by (cases "resolveConfig c vid html")
     (auto simp: getVideoInfoFromHTML_def split: sum.splits
           dest: extractFromConfig_info_or_error)

text \<open>
  C4. The claim: for every input the call returns a \<^verbatim>\<open>VideoInfo\<close> or an error. The code
  does otherwise when the player response of a configuration that has passed the
  status gate is there and \<^verbatim>\<open>json.Unmarshal\<close> accepts it and leaves \<^verbatim>\<open>response\<close> at
  \<^verbatim>\<open>nil\<close>, as it does for the JSON literal \<^verbatim>\<open>null\<close>: line 220 reads
  \<^verbatim>\<open>response.StreamingData\<close> and the call panics, returning neither.
\<close>

theorem nil_player_response_panics:
  assumes "resolveConfig c vid html = (Inr jsonConfig, reqs)"
    and "Status (Args jsonConfig) \<noteq> ''fail''"
    and "PlayerResponse (Args jsonConfig) \<noteq> []"
    and "json_Unmarshal_playerResponse c (PlayerResponse (Args jsonConfig)) = Inr None"
  shows "getVideoInfoFromHTML c vid html = (Panics, reqs)"
  using assms
  by (simp add: getVideoInfoFromHTML_resolved extractFromConfig_pass playerResponseStep_nil)

theorem nil_player_response_panics_witness:
  "getVideoInfoFromHTML
     (sampleEnv (Inl ''offline'') (Inr nullResponseConfig) (Inl []) (Inr None))
     ''abc'' samplePage = (Panics, [])"
proof -
  let ?c = "sampleEnv (Inl ''offline'') (Inr nullResponseConfig) (Inl []) (Inr None)"
  have gate: "Status (Args nullResponseConfig) \<noteq> ''fail''"
    by (simp add: nullResponseConfig_def sampleArgs_def zeroPlayerConfig_def)
  have present: "PlayerResponse (Args nullResponseConfig) \<noteq> []"
    by (simp add: nullResponseConfig_def)
  have nil: "json_Unmarshal_playerResponse ?c (PlayerResponse (Args nullResponseConfig)) = Inr None"
    by (simp add: sampleEnv_def)
  show ?thesis
    by (rule nil_player_response_panics [OF resolveConfig_sample gate present nil])
qed

lemma getVideoInfoFromHTML_success:
  assumes "getVideoInfoFromHTML c vid html = (Returns (Some info, None), reqs)"
  shows "\<exists>jsonConfig info' formats.
           resolveConfig c vid html = (Inr jsonConfig, reqs) \<and>
           Status (Args jsonConfig) \<noteq> ''fail'' \<and>
           playerResponseStep c (Args jsonConfig) (metadataStep c vid html)
             (legacyFormats c (Args jsonConfig)) = Returns (Inr (info', formats)) \<and>
           info = (if htmlPlayerFile info' = [] then
                     info'\<lparr>htmlPlayerFile := Assets_JS jsonConfig\<rparr>
                   else info')\<lparr>Formats := formats\<rparr>"
proof (cases "resolveConfig c vid html")
  case (Pair r reqs')
  show ?thesis
  proof (cases r)
    case (Inl err)
    with Pair assms show ?thesis
      by (simp add: getVideoInfoFromHTML_unresolved)
  next
    case (Inr jsonConfig)
    with Pair assms have run: "extractFromConfig c (metadataStep c vid html) jsonConfig =
        Returns (Some info, None)" and reqs: "reqs' = reqs"
      by (simp_all add: getVideoInfoFromHTML_resolved)
    have gate: "Status (Args jsonConfig) \<noteq> ''fail''"
      using run by (auto simp: extractFromConfig_fail)
    with run show ?thesis
      using Pair Inr reqs
      by (auto simp: extractFromConfig_pass split: outcome.splits sum.splits prod.splits)
  qed
qed

lemma playerResponseStep_frame:
  assumes "playerResponseStep c args info formats = Returns (Inr (info', formats'))"
  shows "ID info' = ID info" and "htmlPlayerFile info' = htmlPlayerFile info"
    and "Description info' = Description info" and "Artist info' = Artist info"
    and "Song info' = Song info" and "Album info' = Album info"
    and "Writers info' = Writers info"
  using assms
  by (auto simp: playerResponseStep_def Let_def setDuration_frame
        split: if_splits sum.splits option.splits)

subsection \<open>The end of the call\<close>

text \<open>
  C9. When the configuration that the call has obtained passes the status gate, and
  its player response is empty or decodes to a value whose playability status is
  \<^verbatim>\<open>OK\<close>, the call returns a \<^verbatim>\<open>VideoInfo\<close> and no error, and the formats of that
  \<^verbatim>\<open>VideoInfo\<close> are the ones decoded from the legacy stream maps and then from the player
  response, also when there is none.
\<close>

theorem empty_format_list_is_success:
  assumes "resolveConfig c vid html = (Inr jsonConfig, reqs)"
    and "Status (Args jsonConfig) \<noteq> ''fail''"
    and "PlayerResponse (Args jsonConfig) = [] \<or>
         (\<exists>response.
            json_Unmarshal_playerResponse c (PlayerResponse (Args jsonConfig)) = Inr (Some response) \<and>
            PlayabilityStatus_Status response = ''OK'')"
  shows "\<exists>info. getVideoInfoFromHTML c vid html = (Returns (Some info, None), reqs) \<and>
           Formats info =
             (if PlayerResponse (Args jsonConfig) = [] then legacyFormats c (Args jsonConfig)
              else case json_Unmarshal_playerResponse c (PlayerResponse (Args jsonConfig)) of
                     Inr (Some response) \<Rightarrow>
                       addFormatsByInfos c
                         (addFormatsByInfos c (legacyFormats c (Args jsonConfig))
                            (StreamingData_Formats response) False)
                         (StreamingData_AdaptiveFormats response) True
                   | _ \<Rightarrow> [])"
proof (cases "PlayerResponse (Args jsonConfig) = []")
  case True
  with assms(1,2) show ?thesis
    by (simp add: getVideoInfoFromHTML_resolved extractFromConfig_pass playerResponseStep_absent)
next
  case False
  with assms(3) obtain response where
    r: "json_Unmarshal_playerResponse c (PlayerResponse (Args jsonConfig)) = Inr (Some response)"
      "PlayabilityStatus_Status response = ''OK''"
    by auto
  from playerResponseStep_playable [OF False r, of "metadataStep c vid html"
      "legacyFormats c (Args jsonConfig)"]
  obtain info' where "playerResponseStep c (Args jsonConfig) (metadataStep c vid html)
      (legacyFormats c (Args jsonConfig)) =
        Returns (Inr (info',
          addFormatsByInfos c
            (addFormatsByInfos c (legacyFormats c (Args jsonConfig))
               (StreamingData_Formats response) False)
            (StreamingData_AdaptiveFormats response) True))"
    by blast
  with assms(1,2) False r show ?thesis
    by (simp add: getVideoInfoFromHTML_resolved extractFromConfig_pass)
qed

theorem empty_format_list_is_success_witness:
  "map_option Formats
     (returnedInfo (getVideoInfoFromHTML
        (sampleEnv (Inl ''offline'') (Inr responseConfig) (Inl []) (Inr (Some sampleResponse)))
        ''abc'' samplePage)) = Some []
   \<and> map_option Formats
     (returnedInfo (getVideoInfoFromHTML
        (sampleEnv (Inl ''offline'') (Inr zeroPlayerConfig) (Inl []) (Inl []))
        ''abc'' samplePage)) = Some []"
proof -
  let ?c = "sampleEnv (Inl ''offline'') (Inr responseConfig) (Inl []) (Inr (Some sampleResponse))"
  let ?d = "sampleEnv (Inl ''offline'') (Inr zeroPlayerConfig) (Inl []) (Inl [])"
  have gate: "Status (Args responseConfig) \<noteq> ''fail''" "Status (Args zeroPlayerConfig) \<noteq> ''fail''"
    by (simp_all add: responseConfig_def sampleArgs_def zeroPlayerConfig_def)
  have ok: "PlayerResponse (Args responseConfig) = [] \<or>
      (\<exists>response.
         json_Unmarshal_playerResponse ?c (PlayerResponse (Args responseConfig)) =
           Inr (Some response) \<and>
         PlayabilityStatus_Status response = ''OK'')"
    by (simp add: sampleEnv_def sampleResponse_def)
  have skipped: "PlayerResponse (Args zeroPlayerConfig) = [] \<or>
      (\<exists>response.
         json_Unmarshal_playerResponse ?d (PlayerResponse (Args zeroPlayerConfig)) =
           Inr (Some response) \<and>
         PlayabilityStatus_Status response = ''OK'')"
    by (simp add: zeroPlayerConfig_def)
  have legacy: "legacyFormats c (Args responseConfig) = []"
    "legacyFormats c (Args zeroPlayerConfig) = []" for c :: "(unit, string \<times> bool, string) Env"
    by (simp_all add: legacyFormats_def responseConfig_def sampleArgs_def zeroPlayerConfig_def
          addFormatsByQueryStrings_no_comma)
  from empty_format_list_is_success [OF resolveConfig_sample gate(1) ok]
  obtain info where run: "getVideoInfoFromHTML ?c ''abc'' samplePage = (Returns (Some info, None), [])"
    and formats: "Formats info =
      (if PlayerResponse (Args responseConfig) = [] then legacyFormats ?c (Args responseConfig)
       else case json_Unmarshal_playerResponse ?c (PlayerResponse (Args responseConfig)) of
              Inr (Some response) \<Rightarrow>
                addFormatsByInfos ?c
                  (addFormatsByInfos ?c (legacyFormats ?c (Args responseConfig))
                     (StreamingData_Formats response) False)
                  (StreamingData_AdaptiveFormats response) True
            | _ \<Rightarrow> [])"
    by blast
  have "json_Unmarshal_playerResponse ?c (PlayerResponse (Args responseConfig)) =
      Inr (Some sampleResponse)"
    by (simp add: sampleEnv_def)
  with formats have "Formats info = []"
    by (simp add: legacy) (simp add: responseConfig_def sampleResponse_def)
  with run
  have "map_option Formats (returnedInfo (getVideoInfoFromHTML ?c ''abc'' samplePage)) = Some []"
    by simp
  moreover from empty_format_list_is_success [OF resolveConfig_sample gate(2) skipped]
  obtain info' where
    run': "getVideoInfoFromHTML ?d ''abc'' samplePage = (Returns (Some info', None), [])"
    and formats': "Formats info' =
      (if PlayerResponse (Args zeroPlayerConfig) = [] then legacyFormats ?d (Args zeroPlayerConfig)
       else case json_Unmarshal_playerResponse ?d (PlayerResponse (Args zeroPlayerConfig)) of
              Inr (Some response) \<Rightarrow>
                addFormatsByInfos ?d
                  (addFormatsByInfos ?d (legacyFormats ?d (Args zeroPlayerConfig))
                     (StreamingData_Formats response) False)
                  (StreamingData_AdaptiveFormats response) True
            | _ \<Rightarrow> [])"
    by blast
  from formats' have "Formats info' = []"
    by (simp add: legacy) (simp add: zeroPlayerConfig_def)
  with run'
  have "map_option Formats (returnedInfo (getVideoInfoFromHTML ?d ''abc'' samplePage)) = Some []"
    by simp
  ultimately show ?thesis by simp
qed

text \<open>
  C10. The \<^verbatim>\<open>VideoInfo\<close> that \<^verbatim>\<open>getVideoInfoFromHTML\<close> returns has the identifier it
  was called with, and so has the one that \<^verbatim>\<open>GetVideoInfoFromID\<close> returns, whatever
  the page, the collaborators and the source of the configuration are.
\<close>

theorem ID_is_the_callers:
  "(getVideoInfoFromHTML c vid html = (Returns (Some info, None), reqs) \<longrightarrow> ID info = vid)
   \<and> (GetVideoInfoFromID c vid = (Returns (Some info, None), reqs) \<longrightarrow> ID info = vid)"
proof -
  have html: "ID i = vid"
    if "getVideoInfoFromHTML c vid page = (Returns (Some i, None), rs)" for page i rs
  proof -
    from getVideoInfoFromHTML_success [OF that]
    obtain jsonConfig :: playerConfig and info' formats where
      step: "playerResponseStep c (Args jsonConfig) (metadataStep c vid page)
        (legacyFormats c (Args jsonConfig)) = Returns (Inr (info', formats))"
      and i: "i = (if htmlPlayerFile info' = [] then
                     info'\<lparr>htmlPlayerFile := Assets_JS jsonConfig\<rparr>
                   else info')\<lparr>Formats := formats\<rparr>"
      by blast
    from i have "ID i = ID info'"
      by simp
    also from step have "\<dots> = ID (metadataStep c vid page)"
      by (rule playerResponseStep_frame)
    finally show ?thesis
      by (simp add: metadataStep_fields)
  qed
  have "ID info = vid" if "GetVideoInfoFromID c vid = (Returns (Some info, None), reqs)"
    using that html
    by (auto simp: GetVideoInfoFromID_def split: sum.splits prod.splits)
  with html show ?thesis
    by blast
qed

theorem ID_is_the_callers_witness:
  "map_option ID
     (returnedInfo (getVideoInfoFromHTML
        (sampleEnv (Inr samplePage) (Inr responseConfig) (Inl []) (Inr (Some sampleResponse)))
        ''abc'' samplePage)) = Some ''abc''
   \<and> map_option ID
     (returnedInfo (GetVideoInfoFromID
        (sampleEnv (Inr samplePage) (Inr responseConfig) (Inl []) (Inr (Some sampleResponse)))
        ''abc'')) = Some ''abc''"
proof -
  let ?c = "sampleEnv (Inr samplePage) (Inr responseConfig) (Inl []) (Inr (Some sampleResponse))"
  have gate: "Status (Args responseConfig) \<noteq> ''fail''"
    by (simp add: responseConfig_def sampleArgs_def zeroPlayerConfig_def)
  have present: "PlayerResponse (Args responseConfig) \<noteq> []"
    by (simp add: responseConfig_def)
  have decoded: "json_Unmarshal_playerResponse ?c (PlayerResponse (Args responseConfig)) =
      Inr (Some sampleResponse)"
    by (simp add: sampleEnv_def)
  have ok: "PlayabilityStatus_Status sampleResponse = ''OK''"
    by (simp add: sampleResponse_def)
  from playerResponseStep_playable [OF present decoded ok,
      of "metadataStep ?c ''abc'' samplePage" "legacyFormats ?c (Args responseConfig)"]
  obtain info' formats where
    step: "playerResponseStep ?c (Args responseConfig) (metadataStep ?c ''abc'' samplePage)
      (legacyFormats ?c (Args responseConfig)) = Returns (Inr (info', formats))"
    by blast
  define info where "info =
    (if htmlPlayerFile info' = [] then info'\<lparr>htmlPlayerFile := Assets_JS responseConfig\<rparr>
     else info')\<lparr>Formats := formats\<rparr>"
  have run: "getVideoInfoFromHTML ?c ''abc'' samplePage = (Returns (Some info, None), [])"
    using step gate
    by (simp add: getVideoInfoFromHTML_resolved [OF resolveConfig_sample]
          extractFromConfig_pass info_def)
  have page: "httpGetAndCheckResponseReadBody ?c (watchRequest ''abc'') = Inr samplePage"
    by (simp add: sampleEnv_def)
  from run page have run': "GetVideoInfoFromID ?c ''abc'' =
      (Returns (Some info, None), [watchRequest ''abc''])"
    by (simp add: GetVideoInfoFromID_def)
  from ID_is_the_callers [of ?c "''abc''" samplePage info "[]"] run
  have "ID info = ''abc''"
    by simp
  moreover from ID_is_the_callers [of ?c "''abc''" samplePage info "[watchRequest ''abc'']"] run'
  have "ID info = ''abc''"
    by simp
  ultimately show ?thesis
    using run run' by simp
qed

subsection \<open>The metadata step cannot fail the call\<close>

lemma metadataPage_config: "regexpPlayerConfig_FindSubmatch metadataPage = Some ''{}''"
  by code_simp

lemma metadataPage_initialData:
  "regexpInitialData_FindSubmatch metadataPage = Some ''{};ytplayer.config = {};ytplayer.load()''"
  by code_simp

lemma failure_extractFromConfig:
  assumes "json_Unmarshal_playerResponse c' = json_Unmarshal_playerResponse c"
  shows "failure (extractFromConfig c' info' jsonConfig) =
           failure (extractFromConfig c info jsonConfig)"
  using assms
  by (simp add: extractFromConfig_def playerResponseStep_def Let_def
        split: sum.splits option.splits)

lemma metadata_collaborators_irrelevant:
  "resolveConfig (c\<lparr>jsonquery_Parse := p, jsonquery_Query := q, jsonquery_Find := f,
                    InnerText := t, getMetaDataRow := g\<rparr>) vid html =
     resolveConfig c vid html"
  by (simp add: resolveConfig_def videoInfoRequest_def split: option.splits sum.splits)

lemma failure_getVideoInfoFromHTML:
  "failure (fst (getVideoInfoFromHTML c vid html)) =
     (case fst (resolveConfig c vid html) of
        Inl err \<Rightarrow> Returns (Some err)
      | Inr jsonConfig \<Rightarrow> failure (extractFromConfig c (metadataStep c vid html) jsonConfig))"
  by (cases "resolveConfig c vid html")
     (simp add: getVideoInfoFromHTML_def split: sum.splits)

text \<open>
  C8. The error that the call returns, or its panic, and the requests it sends are the
  same whatever the collaborators of the metadata step do (\<^verbatim>\<open>jsonquery\<close> and
  \<^verbatim>\<open>getMetaDataRow\<close>): the step cannot make the call fail. When the page has no
  metadata marker, or the text at the marker does not parse, or the query for the
  description fails, the metadata step leaves the \<^verbatim>\<open>VideoInfo\<close> as it was, and a
  \<^verbatim>\<open>VideoInfo\<close> that the call returns has an empty description, artist, song, album and
  writers. A row whose label is none of \<^verbatim>\<open>Artist\<close>, \<^verbatim>\<open>Song\<close>, \<^verbatim>\<open>Album\<close> and
  \<^verbatim>\<open>Writers\<close> changes nothing.
\<close>

theorem metadata_never_fails:
  "failure (fst (getVideoInfoFromHTML
       (c\<lparr>jsonquery_Parse := p, jsonquery_Query := q, jsonquery_Find := f,
          InnerText := t, getMetaDataRow := g\<rparr>) vid html)) =
     failure (fst (getVideoInfoFromHTML c vid html))
   \<and> snd (getVideoInfoFromHTML
       (c\<lparr>jsonquery_Parse := p, jsonquery_Query := q, jsonquery_Find := f,
          InnerText := t, getMetaDataRow := g\<rparr>) vid html) =
     snd (getVideoInfoFromHTML c vid html)
   \<and> (regexpInitialData_FindSubmatch html = None \<or>
        regexpInitialData_FindSubmatch html = Some m \<and> jsonquery_Parse c m = Inl err \<or>
        regexpInitialData_FindSubmatch html = Some m \<and> jsonquery_Parse c m = Inr doc \<and>
          jsonquery_Query c doc ''//videoSecondaryInfoRenderer/description'' = Inl err \<longrightarrow>
      metadataStep c vid html = zeroVideoInfo\<lparr>ID := vid\<rparr> \<and>
      (getVideoInfoFromHTML c vid html = (Returns (Some info, None), reqs) \<longrightarrow>
         Description info = [] \<and> Artist info = [] \<and> Song info = [] \<and> Album info = [] \<and>
         Writers info = []))
   \<and> (key \<noteq> ''Artist'' \<and> key \<noteq> ''Song'' \<and> key \<noteq> ''Album'' \<and> key \<noteq> ''Writers'' \<longrightarrow>
        applyMetaDataRow row_info (key, val) = row_info)"
proof (intro conjI impI)
  let ?c' = "c\<lparr>jsonquery_Parse := p, jsonquery_Query := q, jsonquery_Find := f,
               InnerText := t, getMetaDataRow := g\<rparr>"
  show "failure (fst (getVideoInfoFromHTML ?c' vid html)) =
      failure (fst (getVideoInfoFromHTML c vid html))"
    by (simp add: failure_getVideoInfoFromHTML metadata_collaborators_irrelevant
          failure_extractFromConfig [of ?c' c] split: sum.splits)
  show "snd (getVideoInfoFromHTML ?c' vid html) = snd (getVideoInfoFromHTML c vid html)"
    by (simp add: snd_getVideoInfoFromHTML metadata_collaborators_irrelevant)
next
  assume failed: "regexpInitialData_FindSubmatch html = None \<or>
      regexpInitialData_FindSubmatch html = Some m \<and> jsonquery_Parse c m = Inl err \<or>
      regexpInitialData_FindSubmatch html = Some m \<and> jsonquery_Parse c m = Inr doc \<and>
        jsonquery_Query c doc ''//videoSecondaryInfoRenderer/description'' = Inl err"
  then show unchanged: "metadataStep c vid html = zeroVideoInfo\<lparr>ID := vid\<rparr>"
    by (auto simp: metadataStep_def addMetadata_def)
  assume "getVideoInfoFromHTML c vid html = (Returns (Some info, None), reqs)"
  from getVideoInfoFromHTML_success [OF this]
  obtain jsonConfig :: playerConfig and info' formats where
    step: "playerResponseStep c (Args jsonConfig) (metadataStep c vid html)
      (legacyFormats c (Args jsonConfig)) = Returns (Inr (info', formats))"
    and info: "info = (if htmlPlayerFile info' = [] then
                         info'\<lparr>htmlPlayerFile := Assets_JS jsonConfig\<rparr>
                       else info')\<lparr>Formats := formats\<rparr>"
    by blast
  from info playerResponseStep_frame [OF step] unchanged
  show "Description info = []" "Artist info = []" "Song info = []" "Album info = []"
    "Writers info = []"
    by (simp_all add: zeroVideoInfo_def)
next
  assume "key \<noteq> ''Artist'' \<and> key \<noteq> ''Song'' \<and> key \<noteq> ''Album'' \<and> key \<noteq> ''Writers''"
  then show "applyMetaDataRow row_info (key, val) = row_info"
    by (simp add: applyMetaDataRow_def)
qed

lemma getVideoInfoFromHTML_skipped:
  assumes "resolveConfig c vid html = (Inr jsonConfig, reqs)"
    and "Status (Args jsonConfig) \<noteq> ''fail''"
    and "PlayerResponse (Args jsonConfig) = []"
  shows "getVideoInfoFromHTML c vid html =
           (Returns (Some ((metadataStep c vid html)
                       \<lparr>htmlPlayerFile := Assets_JS jsonConfig,
                        Formats := legacyFormats c (Args jsonConfig)\<rparr>), None), reqs)"
  using assms
  by (simp add: getVideoInfoFromHTML_resolved extractFromConfig_pass
        playerResponseStep_absent metadataStep_fields)

theorem metadata_never_fails_witness:
  "failure (fst (getVideoInfoFromHTML
       ((sampleEnv (Inl ''offline'') (Inr zeroPlayerConfig) (Inl []) (Inl []))
          \<lparr>jsonquery_Parse := (\<lambda>s. Inr ()), jsonquery_Query := (\<lambda>n e. Inr (Some ())),
           jsonquery_Find := (\<lambda>n e. [()]), InnerText := (\<lambda>n. ''text''),
           getMetaDataRow := (\<lambda>n. (''Artist'', ''X''))\<rparr>)
       ''abc'' metadataPage)) = Returns None
   \<and> metadataStep (sampleEnv (Inl ''offline'') (Inr zeroPlayerConfig) (Inl []) (Inl []))
       ''abc'' metadataPage = zeroVideoInfo\<lparr>ID := ''abc''\<rparr>
   \<and> map_option (\<lambda>info. (Description info, Artist info, Song info, Album info, Writers info))
       (returnedInfo (getVideoInfoFromHTML
          (sampleEnv (Inl ''offline'') (Inr zeroPlayerConfig) (Inl []) (Inl []))
          ''abc'' metadataPage)) = Some ([], [], [], [], [])
   \<and> applyMetaDataRow (zeroVideoInfo :: (string \<times> bool) VideoInfo) (''Category'', ''Music'') =
       zeroVideoInfo"
proof -
  let ?c = "sampleEnv (Inl ''offline'') (Inr zeroPlayerConfig) (Inl []) (Inl [])"
  let ?p = "\<lambda>s :: string. Inr () :: string + unit"
  let ?q = "\<lambda>(n :: unit) (e :: string). Inr (Some ()) :: string + unit option"
  let ?f = "\<lambda>(n :: unit) (e :: string). [()]"
  let ?t = "\<lambda>n :: unit. ''text''"
  let ?g = "\<lambda>n :: unit. (''Artist'', ''X'')"
  have resolved: "resolveConfig ?c ''abc'' metadataPage = (Inr zeroPlayerConfig, [])"
    by (simp add: resolveConfig_embedded metadataPage_config sampleEnv_def)
  have gate: "Status (Args zeroPlayerConfig) \<noteq> ''fail''"
    and absent: "PlayerResponse (Args zeroPlayerConfig) = []"
    by (simp_all add: zeroPlayerConfig_def)
  note run = getVideoInfoFromHTML_skipped [OF resolved gate absent]
  have marker: "regexpInitialData_FindSubmatch metadataPage =
      Some ''{};ytplayer.config = {};ytplayer.load()''"
    by (rule metadataPage_initialData)
  have parse: "jsonquery_Parse ?c ''{};ytplayer.config = {};ytplayer.load()'' =
      Inl ''unexpected end of JSON input''"
    by (simp add: sampleEnv_def)
  define info where "info = (zeroVideoInfo :: (string \<times> bool) VideoInfo)
    \<lparr>ID := ''abc'', htmlPlayerFile := Assets_JS zeroPlayerConfig,
     Formats := legacyFormats ?c (Args zeroPlayerConfig)\<rparr>"
  note inst = metadata_never_fails [where c = "?c" and vid = "''abc''" and html = metadataPage
      and p = "?p" and q = "?q" and f = "?f" and t = "?t" and g = "?g"
      and m = "''{};ytplayer.config = {};ytplayer.load()''"
      and err = "''unexpected end of JSON input''" and doc = "()"
      and info = info and reqs = "[]" and key = "''Category''" and val = "''Music''"
      and row_info = "zeroVideoInfo :: (string \<times> bool) VideoInfo"]
  have unchanged: "metadataStep ?c ''abc'' metadataPage = zeroVideoInfo\<lparr>ID := ''abc''\<rparr>"
    using inst marker parse by simp
  have returned: "getVideoInfoFromHTML ?c ''abc'' metadataPage = (Returns (Some info, None), [])"
    using run unchanged by (simp add: info_def)
  have "failure (fst (getVideoInfoFromHTML
      (?c\<lparr>jsonquery_Parse := ?p, jsonquery_Query := ?q, jsonquery_Find := ?f,
          InnerText := ?t, getMetaDataRow := ?g\<rparr>) ''abc'' metadataPage)) = Returns None"
    using inst returned by simp
  moreover have "map_option (\<lambda>info. (Description info, Artist info, Song info, Album info,
        Writers info)) (returnedInfo (getVideoInfoFromHTML ?c ''abc'' metadataPage)) =
      Some ([], [], [], [], [])"
    using inst marker parse returned by simp
  moreover have "applyMetaDataRow (zeroVideoInfo :: (string \<times> bool) VideoInfo)
      (''Category'', ''Music'') = zeroVideoInfo"
    using inst by simp
  ultimately show ?thesis
    using unchanged by simp
qed

subsection \<open>The duration\<close>

lemma digitsValue_foldl_nonneg:
  "0 \<le> n \<Longrightarrow> list_all isDigit ds \<Longrightarrow>
   0 \<le> foldl (\<lambda>n ch. n * 10 + (int (of_char ch) - 48)) n ds"
  by (induction ds arbitrary: n) (auto simp: isDigit_def)

lemma digitsValue_nonneg: "list_all isDigit ds \<Longrightarrow> 0 \<le> digitsValue ds"
  by (simp add: digitsValue_def digitsValue_foldl_nonneg)

lemma Atoi_digits:
  assumes "isDigits s" and "digitsValue s \<le> 2 ^ 63 - 1"
  shows "Atoi s = Some (digitsValue s)"
proof (cases s)
  case Nil
  with assms show ?thesis by (simp add: isDigits_def)
next
  case (Cons ch r)
  with assms have "isDigit ch"
    by (simp add: isDigits_def)
  then have "ch \<noteq> CHR ''-''" "ch \<noteq> CHR ''+''"
    by (auto simp: isDigit_def)
  moreover from assms have "0 \<le> digitsValue s"
    by (simp add: isDigits_def digitsValue_nonneg)
  ultimately show ?thesis
    using assms Cons by (simp add: Atoi_def isDigits_def)
qed

lemma Atoi_not_numeric: "\<not> isNumeric s \<Longrightarrow> Atoi s = None"
  by (cases s) (auto simp: Atoi_def isNumeric_def isDigits_def Let_def split: if_splits)

lemma int64_id: "- (2 ^ 63) \<le> x \<Longrightarrow> x < 2 ^ 63 \<Longrightarrow> int64 x = x"
  by (simp add: int64_def)

lemma int64_seconds:
  assumes "0 \<le> n" and "n \<le> 9223372036"
  shows "int64 (int64 n * Second) = n * Second"
proof -
  from assms have "int64 n = n"
    by (intro int64_id) simp_all
  moreover from assms have "int64 (n * Second) = n * Second"
    by (intro int64_id) (simp_all add: Second_def)
  ultimately show ?thesis by simp
qed

lemma Atoi_635: "Atoi ''635'' = Some 635"
  by code_simp

lemma getVideoInfoFromHTML_playable:
  assumes "resolveConfig c vid html = (Inr jsonConfig, reqs)"
    and "Status (Args jsonConfig) \<noteq> ''fail''"
    and "PlayerResponse (Args jsonConfig) \<noteq> []"
    and "json_Unmarshal_playerResponse c (PlayerResponse (Args jsonConfig)) = Inr (Some response)"
    and "PlayabilityStatus_Status response = ''OK''"
  shows "\<exists>info. getVideoInfoFromHTML c vid html = (Returns (Some info, None), reqs) \<and>
           Duration info =
             Duration (setDuration (VideoDetails_LengthSeconds response) (metadataStep c vid html))"
proof -
  from playerResponseStep_playable [OF assms(3-5), of "metadataStep c vid html"
      "legacyFormats c (Args jsonConfig)"]
  obtain info' formats where
    "playerResponseStep c (Args jsonConfig) (metadataStep c vid html)
      (legacyFormats c (Args jsonConfig)) = Returns (Inr (info', formats))"
    and "Duration info' =
      Duration (setDuration (VideoDetails_LengthSeconds response) (metadataStep c vid html))"
    by blast
  with assms(1,2) show ?thesis
    by (simp add: getVideoInfoFromHTML_resolved extractFromConfig_pass)
qed

lemma resolveConfig_responseConfig:
  "resolveConfig (sampleEnv h (Inr responseConfig) q p) vid samplePage = (Inr responseConfig, [])"
  by (rule resolveConfig_sample)

lemma responseConfig_gate:
  "Status (Args responseConfig) \<noteq> ''fail''" "PlayerResponse (Args responseConfig) \<noteq> []"
  by (simp_all add: responseConfig_def sampleArgs_def zeroPlayerConfig_def)

lemma sample_run:
  "\<exists>info. getVideoInfoFromHTML
       (sampleEnv h (Inr responseConfig) q (Inr (Some (responseOfLength seconds))))
       vid samplePage = (Returns (Some info, None), []) \<and>
     Duration info =
       Duration (setDuration seconds
         ((zeroVideoInfo :: (string \<times> bool) VideoInfo)\<lparr>ID := vid\<rparr>))"
proof -
  let ?c = "sampleEnv h (Inr responseConfig) q (Inr (Some (responseOfLength seconds)))"
  have resolved: "resolveConfig ?c vid samplePage = (Inr responseConfig, [])"
    by (rule resolveConfig_sample)
  have decoded: "json_Unmarshal_playerResponse ?c (PlayerResponse (Args responseConfig)) =
      Inr (Some (responseOfLength seconds))"
    by (simp add: sampleEnv_def)
  have ok: "PlayabilityStatus_Status (responseOfLength seconds) = ''OK''"
    by (simp add: responseOfLength_def sampleResponse_def)
  from getVideoInfoFromHTML_playable [OF resolved responseConfig_gate decoded ok]
  show ?thesis
    by (simp add: metadataStep_sample responseOfLength_def)
qed

text \<open>
  C6, as the claim states it, fails: it says that a numeric string \<open>n\<close> gives a duration
  of \<open>n\<close> seconds. The count \<^verbatim>\<open>9223372037\<close> is a numeric string that \<^verbatim>\<open>strconv.Atoi\<close>
  accepts, and its product with \<^verbatim>\<open>time.Second\<close> does not fit in 64 bits: the duration
  returned is negative.
\<close>

theorem duration_of_numeric_string_counterexample:
  "map_option Duration
     (returnedInfo (getVideoInfoFromHTML
        (sampleEnv (Inl ''offline'') (Inr responseConfig) (Inl [])
           (Inr (Some (responseOfLength ''9223372037''))))
        ''abc'' samplePage)) = Some (- 9223372036709551616)
   \<and> isDigits ''9223372037''
   \<and> digitsValue ''9223372037'' * Second = 9223372037000000000"
proof -
  obtain info where
    "getVideoInfoFromHTML
       (sampleEnv (Inl ''offline'') (Inr responseConfig) (Inl [])
          (Inr (Some (responseOfLength ''9223372037''))))
       ''abc'' samplePage = (Returns (Some info, None), [])"
    and "Duration info =
      Duration (setDuration ''9223372037''
        ((zeroVideoInfo :: (string \<times> bool) VideoInfo)\<lparr>ID := ''abc''\<rparr>))"
    using sample_run by blast
  moreover have "Duration (setDuration ''9223372037''
      ((zeroVideoInfo :: (string \<times> bool) VideoInfo)\<lparr>ID := ''abc''\<rparr>)) = - 9223372036709551616"
    by code_simp
  moreover have "isDigits ''9223372037''"
    by code_simp
  moreover have "digitsValue ''9223372037'' * Second = 9223372037000000000"
    by code_simp
  ultimately show ?thesis
    by simp
qed

text \<open>
  C6, amended. For a configuration that the call has obtained and that has passed the
  status gate, with a player response that decodes to a value whose playability status
  is \<^verbatim>\<open>OK\<close>, the call returns a \<^verbatim>\<open>VideoInfo\<close> and no error, and its duration is 635
  seconds when \<^verbatim>\<open>lengthSeconds\<close> is \<^verbatim>\<open>635\<close>; \<open>n\<close> seconds when \<^verbatim>\<open>lengthSeconds\<close> is a
  string of decimal digits of a value \<open>n\<close> of at most 9223372036; and unset when
  \<^verbatim>\<open>strconv.Atoi\<close> rejects \<^verbatim>\<open>lengthSeconds\<close>, as it does every string that is not an
  optional sign followed by decimal digits.
\<close>

theorem duration_from_lengthSeconds:
  assumes "resolveConfig c vid html = (Inr jsonConfig, reqs)"
    and "Status (Args jsonConfig) \<noteq> ''fail''"
    and "PlayerResponse (Args jsonConfig) \<noteq> []"
    and "json_Unmarshal_playerResponse c (PlayerResponse (Args jsonConfig)) = Inr (Some response)"
    and "PlayabilityStatus_Status response = ''OK''"
  shows "\<exists>info. getVideoInfoFromHTML c vid html = (Returns (Some info, None), reqs) \<and>
           (VideoDetails_LengthSeconds response = ''635'' \<longrightarrow> Duration info = 635 * Second) \<and>
           (isDigits (VideoDetails_LengthSeconds response) \<and>
            digitsValue (VideoDetails_LengthSeconds response) \<le> 9223372036 \<longrightarrow>
              Duration info = digitsValue (VideoDetails_LengthSeconds response) * Second) \<and>
           (Atoi (VideoDetails_LengthSeconds response) = None \<longrightarrow> Duration info = 0) \<and>
           (\<not> isNumeric (VideoDetails_LengthSeconds response) \<longrightarrow>
              Atoi (VideoDetails_LengthSeconds response) = None)"
proof -
  let ?s = "VideoDetails_LengthSeconds response"
  from getVideoInfoFromHTML_playable [OF assms]
  obtain info where run: "getVideoInfoFromHTML c vid html = (Returns (Some info, None), reqs)"
    and d: "Duration info = Duration (setDuration ?s (metadataStep c vid html))"
    by blast
  show ?thesis
  proof (intro exI [of _ info] conjI impI)
    show "getVideoInfoFromHTML c vid html = (Returns (Some info, None), reqs)"
      by (rule run)
  next
    assume "?s = ''635''"
    with d show "Duration info = 635 * Second"
      by (simp add: setDuration_def Atoi_635 int64_seconds)
  next
    assume digits: "isDigits ?s \<and> digitsValue ?s \<le> 9223372036"
    then have "Atoi ?s = Some (digitsValue ?s)"
      by (intro Atoi_digits) simp_all
    moreover from digits have "0 \<le> digitsValue ?s" "?s \<noteq> []"
      by (simp_all add: isDigits_def digitsValue_nonneg)
    ultimately show "Duration info = digitsValue ?s * Second"
      using d digits by (simp add: setDuration_def int64_seconds)
  next
    assume "Atoi ?s = None"
    with d show "Duration info = 0"
      by (simp add: setDuration_def metadataStep_fields)
  next
    assume "\<not> isNumeric ?s"
    then show "Atoi ?s = None"
      by (rule Atoi_not_numeric)
  qed
qed

theorem duration_from_lengthSeconds_witness:
  "map_option Duration
     (returnedInfo (getVideoInfoFromHTML
        (sampleEnv (Inl ''offline'') (Inr responseConfig) (Inl [])
           (Inr (Some (responseOfLength ''635''))))
        ''abc'' samplePage)) = Some (635 * Second)
   \<and> map_option Duration
     (returnedInfo (getVideoInfoFromHTML
        (sampleEnv (Inl ''offline'') (Inr responseConfig) (Inl [])
           (Inr (Some (responseOfLength ''10 minutes''))))
        ''abc'' samplePage)) = Some 0"
proof -
  let ?c = "\<lambda>s. sampleEnv (Inl ''offline'') (Inr responseConfig) (Inl [])
      (Inr (Some (responseOfLength s)))"
  have decoded: "json_Unmarshal_playerResponse (?c s) (PlayerResponse (Args responseConfig)) =
      Inr (Some (responseOfLength s))" for s
    by (simp add: sampleEnv_def)
  have ok: "PlayabilityStatus_Status (responseOfLength s) = ''OK''" for s
    by (simp add: responseOfLength_def sampleResponse_def)
  have len: "VideoDetails_LengthSeconds (responseOfLength s) = s" for s
    by (simp add: responseOfLength_def)
  have digits: "isDigits ''635''" "digitsValue ''635'' = 635"
    by code_simp+
  have words: "\<not> isNumeric ''10 minutes''"
    by code_simp
  from duration_from_lengthSeconds [OF resolveConfig_responseConfig responseConfig_gate
      decoded ok, of "''635''" "''abc''"]
  have "map_option Duration
      (returnedInfo (getVideoInfoFromHTML (?c ''635'') ''abc'' samplePage)) = Some (635 * Second)"
    by (auto simp: len digits)
  moreover
  from duration_from_lengthSeconds [OF resolveConfig_responseConfig responseConfig_gate
      decoded ok, of "''10 minutes''" "''abc''"]
  have "map_option Duration
      (returnedInfo (getVideoInfoFromHTML (?c ''10 minutes'') ''abc'' samplePage)) = Some 0"
    using words by (auto simp: len)
  ultimately show ?thesis
    by simp
qed

text \<open>
  C7, as the claim states it, fails: \<^verbatim>\<open>strconv.Atoi\<close> accepts a sign, and nothing
  checks the value, so the count \<^verbatim>\<open>-5\<close> in the player response gives a \<^verbatim>\<open>VideoInfo\<close>
  whose duration is minus five seconds.
\<close>

theorem negative_duration_counterexample:
  "map_option Duration
     (returnedInfo (getVideoInfoFromHTML
        (sampleEnv (Inl ''offline'') (Inr responseConfig) (Inl [])
           (Inr (Some (responseOfLength ''-5''))))
        ''abc'' samplePage)) = Some (- 5 * Second)
   \<and> - 5 * Second < 0"
proof -
  obtain info where
    "getVideoInfoFromHTML
       (sampleEnv (Inl ''offline'') (Inr responseConfig) (Inl [])
          (Inr (Some (responseOfLength ''-5''))))
       ''abc'' samplePage = (Returns (Some info, None), [])"
    and "Duration info =
      Duration (setDuration ''-5''
        ((zeroVideoInfo :: (string \<times> bool) VideoInfo)\<lparr>ID := ''abc''\<rparr>))"
    using sample_run by blast
  moreover have "Duration (setDuration ''-5''
      ((zeroVideoInfo :: (string \<times> bool) VideoInfo)\<lparr>ID := ''abc''\<rparr>)) = - 5 * Second"
    by code_simp
  ultimately show ?thesis
    by (simp add: Second_def)
qed

text \<open>
  C7, amended. The duration of a \<^verbatim>\<open>VideoInfo\<close> that the call returns is a whole number
  of seconds from 0 to 9223372036, zero when unset, provided that the player response
  of the configuration is empty, or decodes to a value whose \<^verbatim>\<open>lengthSeconds\<close> is
  rejected by \<^verbatim>\<open>strconv.Atoi\<close> or accepted with a value from 0 to 9223372036.
\<close>

theorem duration_nonnegative:
  assumes "getVideoInfoFromHTML c vid html = (Returns (Some info, None), reqs)"
    and "resolveConfig c vid html = (Inr jsonConfig, reqs)"
    and "PlayerResponse (Args jsonConfig) = [] \<or>
         (\<exists>response.
            json_Unmarshal_playerResponse c (PlayerResponse (Args jsonConfig)) = Inr (Some response) \<and>
            (case Atoi (VideoDetails_LengthSeconds response) of
               None \<Rightarrow> True
             | Some n \<Rightarrow> 0 \<le> n \<and> n \<le> 9223372036))"
  shows "0 \<le> Duration info \<and> (\<exists>n. 0 \<le> n \<and> n \<le> 9223372036 \<and> Duration info = n * Second)"
proof -
  from getVideoInfoFromHTML_success [OF assms(1)] assms(2)
  obtain info' formats where
    step: "playerResponseStep c (Args jsonConfig) (metadataStep c vid html)
      (legacyFormats c (Args jsonConfig)) = Returns (Inr (info', formats))"
    and info: "info = (if htmlPlayerFile info' = [] then
                         info'\<lparr>htmlPlayerFile := Assets_JS jsonConfig\<rparr>
                       else info')\<lparr>Formats := formats\<rparr>"
    by auto
  from info have d: "Duration info = Duration info'"
    by simp
  have "\<exists>n. 0 \<le> n \<and> n \<le> 9223372036 \<and> Duration info = n * Second"
  proof (cases "PlayerResponse (Args jsonConfig) = []")
    case True
    with step have "info' = metadataStep c vid html"
      by (simp add: playerResponseStep_absent)
    with d have "Duration info = 0 * Second"
      by (simp add: metadataStep_fields)
    then show ?thesis
      by (intro exI [of _ 0]) simp
  next
    case False
    with assms(3) obtain response where
      decoded: "json_Unmarshal_playerResponse c (PlayerResponse (Args jsonConfig)) =
        Inr (Some response)"
      and range: "case Atoi (VideoDetails_LengthSeconds response) of
          None \<Rightarrow> True | Some n \<Rightarrow> 0 \<le> n \<and> n \<le> 9223372036"
      by auto
    have ok: "PlayabilityStatus_Status response = ''OK''"
      using step playerResponseStep_unplayable [OF False decoded] by fastforce
    from playerResponseStep_playable [OF False decoded ok, of "metadataStep c vid html"
        "legacyFormats c (Args jsonConfig)"] step
    have d': "Duration info' =
        Duration (setDuration (VideoDetails_LengthSeconds response) (metadataStep c vid html))"
      by auto
    show ?thesis
    proof (cases "Atoi (VideoDetails_LengthSeconds response)")
      case None
      with d d' have "Duration info = 0 * Second"
        by (simp add: setDuration_def metadataStep_fields)
      then show ?thesis
        by (intro exI [of _ 0]) simp
    next
      case (Some n)
      with range have n: "0 \<le> n" "n \<le> 9223372036"
        by simp_all
      with d d' Some have "Duration info = 0 * Second \<or> Duration info = n * Second"
        by (simp add: setDuration_def metadataStep_fields int64_seconds)
      with n show ?thesis
        by (auto intro: exI [of _ 0] exI [of _ n])
    qed
  qed
  then show ?thesis
    by (auto simp: Second_def)
qed

theorem duration_nonnegative_witness:
  "map_option (\<lambda>info. 0 \<le> Duration info)
     (returnedInfo (getVideoInfoFromHTML
        (sampleEnv (Inl ''offline'') (Inr responseConfig) (Inl [])
           (Inr (Some (responseOfLength ''635''))))
        ''abc'' samplePage)) = Some True"
proof -
  let ?c = "sampleEnv (Inl ''offline'') (Inr responseConfig) (Inl [])
      (Inr (Some (responseOfLength ''635'')))"
  from sample_run obtain info where
    run: "getVideoInfoFromHTML ?c ''abc'' samplePage = (Returns (Some info, None), [])"
    by blast
  have resolved: "resolveConfig ?c ''abc'' samplePage = (Inr responseConfig, [])"
    by (rule resolveConfig_sample)
  have range: "PlayerResponse (Args responseConfig) = [] \<or>
      (\<exists>response.
         json_Unmarshal_playerResponse ?c (PlayerResponse (Args responseConfig)) =
           Inr (Some response) \<and>
         (case Atoi (VideoDetails_LengthSeconds response) of
            None \<Rightarrow> True
          | Some n \<Rightarrow> 0 \<le> n \<and> n \<le> 9223372036))"
    by (simp add: sampleEnv_def responseOfLength_def Atoi_635)
  from duration_nonnegative [OF run resolved range] run show ?thesis
    by simp
qed

end
